theory Spec2Isabelle
  imports Main "HOL-Library.AList" "HOL-Library.Word"
begin

section \<open>JSON values and JSON text\<close>

text \<open>
  The application keeps one JSON document in the browser's \<open>localStorage\<close>, written with
  \<open>JSON.stringify\<close> and read back with \<open>JSON.parse\<close>. Both are functions of the host,
  so they are embedded here as an executable printer and parser over the type \<open>jv\<close> of
  JSON values.

  A string of the language is a sequence of 16-bit code units, so strings are
  \<open>jstring\<close>, lists of 16-bit words; \<open>js\<close> turns a literal of the theory into such a
  string and \<open>cu\<close> does so for one character. A number is kept as the literal that was
  read, with no floating-point value attached. An object is its list of members in insertion
  order; a repeated key keeps its first position and takes the last value, as
  \<open>JSON.parse\<close> does.
\<close>

type_synonym code_unit = "16 word"

type_synonym jstring = "code_unit list"

abbreviation cu :: "char \<Rightarrow> code_unit" where "cu c \<equiv> of_char c"

definition js :: "string \<Rightarrow> jstring" where
  "js s = map of_char s"

datatype jv =
    JNull
  | JBool bool
  | JNum jstring
  | JStr jstring
  | JArr "jv list"
  | JObj "(jstring \<times> jv) list"

abbreviation DQ :: code_unit where "DQ \<equiv> cu (CHR 0x22)"
abbreviation BSL :: code_unit where "BSL \<equiv> cu (CHR 0x5C)"

text \<open>
  \<open>QuoteJSONString\<close> of the language standard: the quotation mark and the backslash are
  escaped, the control characters below U+0020 are written with their short escape or with
  four hexadecimal digits in lower case, a surrogate that is not half of a pair is written
  with four hexadecimal digits, and every other code unit, a surrogate pair included, is
  copied.
\<close>

definition hex_digit :: "nat \<Rightarrow> code_unit" where
  \<comment> \<open>only applied to \<open>n < 16\<close>: a quotient or a remainder by 16\<close>
  "hex_digit n = cu (''0123456789abcdef'' ! n)"

definition hex_val :: "code_unit \<Rightarrow> nat option" where
  "hex_val c = (let n = unat c in
     if 48 \<le> n \<and> n \<le> 57 then Some (n - 48)
     else if 97 \<le> n \<and> n \<le> 102 then Some (n - 87)
     else if 65 \<le> n \<and> n \<le> 70 then Some (n - 55)
     else None)"

definition is_high :: "code_unit \<Rightarrow> bool" where
  "is_high c \<longleftrightarrow> 0xD800 \<le> unat c \<and> unat c \<le> 0xDBFF"

definition is_low :: "code_unit \<Rightarrow> bool" where
  "is_low c \<longleftrightarrow> 0xDC00 \<le> unat c \<and> unat c \<le> 0xDFFF"

definition unicode_escape :: "code_unit \<Rightarrow> jstring" where
  "unicode_escape c =
     [BSL, cu CHR ''u'', hex_digit (unat c div 4096), hex_digit (unat c div 256 mod 16),
      hex_digit (unat c div 16 mod 16), hex_digit (unat c mod 16)]"

definition escape_unit :: "code_unit \<Rightarrow> jstring" where
  "escape_unit c =
     (if c = cu (CHR 0x08) then [BSL, cu CHR ''b'']
      else if c = cu (CHR 0x09) then [BSL, cu CHR ''t'']
      else if c = cu (CHR 0x0A) then [BSL, cu CHR ''n'']
      else if c = cu (CHR 0x0C) then [BSL, cu CHR ''f'']
      else if c = cu (CHR 0x0D) then [BSL, cu CHR ''r'']
      else if c = DQ then [BSL, DQ]
      else if c = BSL then [BSL, BSL]
      else if unat c < 32 \<or> is_high c \<or> is_low c then unicode_escape c
      else [c])"

fun quote_units :: "jstring \<Rightarrow> jstring" where
  "quote_units [] = []"
| "quote_units [c] = escape_unit c"
| "quote_units (c # d # ds) =
     (if is_high c \<and> is_low d then c # d # quote_units ds
      else escape_unit c @ quote_units (d # ds))"

definition quote :: "jstring \<Rightarrow> jstring" where
  "quote s = DQ # quote_units s @ [DQ]"

fun join_commas :: "jstring list \<Rightarrow> jstring" where
  "join_commas [] = []"
| "join_commas [x] = x"
| "join_commas (x # y # ys) = x @ cu CHR '','' # join_commas (y # ys)"

primrec JSON_stringify :: "jv \<Rightarrow> jstring" where
  "JSON_stringify JNull = js ''null''"
| "JSON_stringify (JBool b) = (if b then js ''true'' else js ''false'')"
| "JSON_stringify (JNum l) = l"
| "JSON_stringify (JStr s) = quote s"
| "JSON_stringify (JArr xs) = cu CHR ''['' # join_commas (map JSON_stringify xs) @ [cu CHR '']'']"
| "JSON_stringify (JObj kvs) =
     cu CHR ''{'' # join_commas (map (\<lambda>(k, s). quote k @ cu CHR '':'' # s)
                                   (map (map_prod id JSON_stringify) kvs)) @ [cu CHR ''}'']"

text \<open>
  The parser follows the JSON grammar: white space between tokens, the literals \<open>null\<close>,
  \<open>true\<close> and \<open>false\<close>, numbers, strings with escapes, arrays and objects. In a string
  an escape of four hexadecimal digits stands for the code unit of that value, whatever the
  value, and every code unit from U+0020 on other than the quotation mark and the backslash
  stands for itself. The first argument of \<open>parse_value\<close> is fuel, which each nested call
  uses up; \<open>JSON_parse\<close> gives twice the length of the text plus one, and fails (the
  \<open>SyntaxError\<close> of the host) on text left over after the value.
\<close>

definition is_ws :: "code_unit \<Rightarrow> bool" where
  "is_ws c \<longleftrightarrow> c = cu CHR '' '' \<or> c = cu (CHR 0x09) \<or> c = cu (CHR 0x0A) \<or> c = cu (CHR 0x0D)"

definition skip_ws :: "jstring \<Rightarrow> jstring" where
  "skip_ws = dropWhile is_ws"

fun strip_prefix :: "jstring \<Rightarrow> jstring \<Rightarrow> jstring option" where
  "strip_prefix [] s = Some s"
| "strip_prefix (p # ps) [] = None"
| "strip_prefix (p # ps) (c # cs) = (if p = c then strip_prefix ps cs else None)"

definition unescape :: "code_unit \<Rightarrow> code_unit option" where
  "unescape e =
     (if e = DQ then Some DQ
      else if e = BSL then Some BSL
      else if e = cu CHR ''/'' then Some (cu CHR ''/'')
      else if e = cu CHR ''b'' then Some (cu (CHR 0x08))
      else if e = cu CHR ''f'' then Some (cu (CHR 0x0C))
      else if e = cu CHR ''n'' then Some (cu (CHR 0x0A))
      else if e = cu CHR ''r'' then Some (cu (CHR 0x0D))
      else if e = cu CHR ''t'' then Some (cu (CHR 0x09))
      else None)"

definition hex4 :: "code_unit \<Rightarrow> code_unit \<Rightarrow> code_unit \<Rightarrow> code_unit \<Rightarrow> nat option" where
  "hex4 a b c d =
     (case (hex_val a, hex_val b, hex_val c, hex_val d) of
        (Some w, Some x, Some y, Some z) \<Rightarrow> Some (((w * 16 + x) * 16 + y) * 16 + z)
      | _ \<Rightarrow> None)"

definition cons_fst :: "'a \<Rightarrow> ('a list \<times> 'b) option \<Rightarrow> ('a list \<times> 'b) option" where
  "cons_fst x r = map_option (\<lambda>(xs, rest). (x # xs, rest)) r"

fun parse_chars :: "jstring \<Rightarrow> (jstring \<times> jstring) option" where
  "parse_chars [] = None"
| "parse_chars (c # cs) =
     (if c = DQ then Some ([], cs)
      else if c = BSL then
        (case cs of
           [] \<Rightarrow> None
         | e # es \<Rightarrow>
             if e = cu CHR ''u'' then
               (case es of
                  h1 # h2 # h3 # h4 # rest \<Rightarrow>
                    (case hex4 h1 h2 h3 h4 of
                       None \<Rightarrow> None
                     | Some n \<Rightarrow> cons_fst (of_nat n) (parse_chars rest))
                | _ \<Rightarrow> None)
             else
               (case unescape e of
                  None \<Rightarrow> None
                | Some d \<Rightarrow> cons_fst d (parse_chars es)))
      else if unat c < 32 then None
      else cons_fst c (parse_chars cs))"

definition is_digit :: "code_unit \<Rightarrow> bool" where
  "is_digit c \<longleftrightarrow> 48 \<le> unat c \<and> unat c \<le> 57"

definition digits1 :: "jstring \<Rightarrow> (jstring \<times> jstring) option" where
  "digits1 s = (let ds = takeWhile is_digit s in
     if ds = [] then None else Some (ds, dropWhile is_digit s))"

definition parse_int_part :: "jstring \<Rightarrow> (jstring \<times> jstring) option" where
  "parse_int_part s =
     (case s of
        [] \<Rightarrow> None
      | c # cs \<Rightarrow> if c = cu CHR ''0'' then Some ([c], cs) else digits1 s)"

definition parse_frac :: "jstring \<Rightarrow> (jstring \<times> jstring) option" where
  "parse_frac s =
     (case s of
        [] \<Rightarrow> Some ([], s)
      | c # cs \<Rightarrow>
          if c = cu CHR ''.'' then cons_fst c (digits1 cs) else Some ([], s))"

definition parse_exp :: "jstring \<Rightarrow> (jstring \<times> jstring) option" where
  "parse_exp s =
     (case s of
        [] \<Rightarrow> Some ([], s)
      | c # cs \<Rightarrow>
          if c = cu CHR ''e'' \<or> c = cu CHR ''E'' then
            (case cs of
               [] \<Rightarrow> None
             | d # ds \<Rightarrow>
                 if d = cu CHR ''+'' \<or> d = cu CHR ''-'' then cons_fst c (cons_fst d (digits1 ds))
                 else cons_fst c (digits1 cs))
          else Some ([], s))"

definition parse_number :: "jstring \<Rightarrow> (jv \<times> jstring) option" where
  "parse_number s =
     (let (sign, s1) = (case s of
                          c # cs \<Rightarrow> if c = cu CHR ''-'' then ([c], cs) else ([], s)
                        | [] \<Rightarrow> ([], s))
      in case parse_int_part s1 of
           None \<Rightarrow> None
         | Some (i, s2) \<Rightarrow>
             (case parse_frac s2 of
                None \<Rightarrow> None
              | Some (f, s3) \<Rightarrow>
                  (case parse_exp s3 of
                     None \<Rightarrow> None
                   | Some (e, s4) \<Rightarrow> Some (JNum (sign @ i @ f @ e), s4))))"

definition make_object :: "(jstring \<times> jv) list \<Rightarrow> jv" where
  "make_object ms = JObj (foldl (\<lambda>acc (k, v). AList.update k v acc) [] ms)"

fun parse_value :: "nat \<Rightarrow> jstring \<Rightarrow> (jv \<times> jstring) option"
  and parse_elements :: "nat \<Rightarrow> jstring \<Rightarrow> (jv list \<times> jstring) option"
  and parse_members :: "nat \<Rightarrow> jstring \<Rightarrow> ((jstring \<times> jv) list \<times> jstring) option"
where
  "parse_value 0 s = None"
| "parse_value (Suc n) s =
     (case skip_ws s of
        [] \<Rightarrow> None
      | c # cs \<Rightarrow>
          if c = cu CHR ''n'' then map_option (Pair JNull) (strip_prefix (js ''ull'') cs)
          else if c = cu CHR ''t'' then map_option (Pair (JBool True)) (strip_prefix (js ''rue'') cs)
          else if c = cu CHR ''f'' then map_option (Pair (JBool False)) (strip_prefix (js ''alse'') cs)
          else if c = DQ then map_option (\<lambda>(x, rest). (JStr x, rest)) (parse_chars cs)
          else if c = cu CHR ''['' then
            (case skip_ws cs of
               [] \<Rightarrow> None
             | d # ds \<Rightarrow>
                 if d = cu CHR '']'' then Some (JArr [], ds)
                 else map_option (\<lambda>(xs, rest). (JArr xs, rest)) (parse_elements n (d # ds)))
          else if c = cu CHR ''{'' then
            (case skip_ws cs of
               [] \<Rightarrow> None
             | d # ds \<Rightarrow>
                 if d = cu CHR ''}'' then Some (JObj [], ds)
                 else map_option (\<lambda>(ms, rest). (make_object ms, rest)) (parse_members n (d # ds)))
          else parse_number (c # cs))"
| "parse_elements 0 s = None"
| "parse_elements (Suc n) s =
     (case parse_value n s of
        None \<Rightarrow> None
      | Some (v, r) \<Rightarrow>
          (case skip_ws r of
             [] \<Rightarrow> None
           | c # cs \<Rightarrow>
               if c = cu CHR '','' then cons_fst v (parse_elements n cs)
               else if c = cu CHR '']'' then Some ([v], cs)
               else None))"
| "parse_members 0 s = None"
| "parse_members (Suc n) s =
     (case skip_ws s of
        [] \<Rightarrow> None
      | q # qs \<Rightarrow>
          if q \<noteq> DQ then None
          else
            (case parse_chars qs of
               None \<Rightarrow> None
             | Some (k, r) \<Rightarrow>
                 (case skip_ws r of
                    [] \<Rightarrow> None
                  | d # ds \<Rightarrow>
                      if d \<noteq> cu CHR '':'' then None
                      else
                        (case parse_value n ds of
                           None \<Rightarrow> None
                         | Some (v, r2) \<Rightarrow>
                             (case skip_ws r2 of
                                [] \<Rightarrow> None
                              | c # cs \<Rightarrow>
                                  if c = cu CHR '','' then cons_fst (k, v) (parse_members n cs)
                                  else if c = cu CHR ''}'' then Some ([(k, v)], cs)
                                  else None)))))"

definition JSON_parse :: "jstring \<Rightarrow> jv option" where
  "JSON_parse s =
     (case parse_value (Suc (2 * length s)) s of
        None \<Rightarrow> None
      | Some (v, rest) \<Rightarrow> if skip_ws rest = [] then Some v else None)"

text \<open>
  Three notions used to state the round trip: the text of one object member, the values the
  documents are made of (no numbers, object keys distinct), and a bound on the fuel the parser
  needs to read a printed value back.
\<close>

definition print_member :: "jstring \<times> jv \<Rightarrow> jstring" where
  "print_member kv = quote (fst kv) @ cu CHR '':'' # JSON_stringify (snd kv)"

fun storable :: "jv \<Rightarrow> bool" where
  "storable JNull = True"
| "storable (JBool b) = True"
| "storable (JNum l) = False"
| "storable (JStr s) = True"
| "storable (JArr xs) = (\<forall>x \<in> set xs. storable x)"
| "storable (JObj kvs) = (distinct (map fst kvs) \<and> (\<forall>kv \<in> set kvs. storable (snd kv)))"

fun need :: "jv \<Rightarrow> nat" where
  "need (JArr xs) = Suc (sum_list (map (\<lambda>x. Suc (need x)) xs))"
| "need (JObj kvs) = Suc (sum_list (map (\<lambda>kv. Suc (need (snd kv))) kvs))"
| "need _ = 1"

definition value_start :: "code_unit \<Rightarrow> bool" where
  "value_start c \<longleftrightarrow> c \<in> {cu CHR ''n'', cu CHR ''t'', cu CHR ''f'', DQ, cu CHR ''['', cu CHR ''{''}"

section \<open>The document\<close>

text \<open>
  The records written by the application. \<open>id\<close>, \<open>created\<close> and the text fields are
  strings; \<open>image\<close> is a data URL or \<open>null\<close>; \<open>updated\<close> is absent until the first edit.
  \<open>thought_to_jv\<close> and its siblings give the JSON object each record is, with the members in
  the order the code creates them.
\<close>

record thought =
  t_id :: jstring
  t_title :: jstring
  t_category :: jstring
  t_content :: jstring
  t_image :: "jstring option"
  t_created :: jstring
  t_updated :: "jstring option"

record work_item =
  w_id :: jstring
  w_title :: jstring
  w_tags :: "jstring list"
  w_content :: jstring
  w_image :: "jstring option"
  w_created :: jstring
  w_updated :: "jstring option"

record project =
  p_id :: jstring
  p_title :: jstring
  p_link :: jstring
  p_desc :: jstring
  p_image :: "jstring option"
  p_created :: jstring
  p_updated :: "jstring option"

record message =
  m_id :: jstring
  m_name :: jstring
  m_email :: jstring
  m_subject :: jstring
  m_message :: jstring
  m_created :: jstring

record credential =
  cr_email :: jstring
  cr_passHash :: jstring

record db =
  thoughts :: "thought list"
  work :: "work_item list"
  projects :: "project list"
  messages :: "message list"
  admin :: "credential option"

definition nullable :: "jstring option \<Rightarrow> jv" where
  "nullable x = (case x of None \<Rightarrow> JNull | Some s \<Rightarrow> JStr s)"

definition updated_member :: "jstring option \<Rightarrow> (jstring \<times> jv) list" where
  "updated_member u = (case u of None \<Rightarrow> [] | Some s \<Rightarrow> [(js ''updated'', JStr s)])"

definition thought_to_jv :: "thought \<Rightarrow> jv" where
  "thought_to_jv t = JObj
     ([(js ''id'', JStr (t_id t)), (js ''title'', JStr (t_title t)),
       (js ''category'', JStr (t_category t)), (js ''content'', JStr (t_content t)),
       (js ''image'', nullable (t_image t)), (js ''created'', JStr (t_created t))]
      @ updated_member (t_updated t))"

definition work_to_jv :: "work_item \<Rightarrow> jv" where
  "work_to_jv w = JObj
     ([(js ''id'', JStr (w_id w)), (js ''title'', JStr (w_title w)),
       (js ''tags'', JArr (map JStr (w_tags w))), (js ''content'', JStr (w_content w)),
       (js ''image'', nullable (w_image w)), (js ''created'', JStr (w_created w))]
      @ updated_member (w_updated w))"

definition project_to_jv :: "project \<Rightarrow> jv" where
  "project_to_jv p = JObj
     ([(js ''id'', JStr (p_id p)), (js ''title'', JStr (p_title p)),
       (js ''link'', JStr (p_link p)), (js ''desc'', JStr (p_desc p)),
       (js ''image'', nullable (p_image p)), (js ''created'', JStr (p_created p))]
      @ updated_member (p_updated p))"

definition message_to_jv :: "message \<Rightarrow> jv" where
  "message_to_jv m = JObj
     [(js ''id'', JStr (m_id m)), (js ''name'', JStr (m_name m)), (js ''email'', JStr (m_email m)),
      (js ''subject'', JStr (m_subject m)), (js ''message'', JStr (m_message m)),
      (js ''created'', JStr (m_created m))]"

definition credential_to_jv :: "credential option \<Rightarrow> jv" where
  "credential_to_jv a =
     (case a of
        None \<Rightarrow> JNull
      | Some c \<Rightarrow> JObj [(js ''email'', JStr (cr_email c)), (js ''passHash'', JStr (cr_passHash c))])"

definition db_to_jv :: "db \<Rightarrow> jv" where
  "db_to_jv d = JObj
     [(js ''thoughts'', JArr (map thought_to_jv (thoughts d))),
      (js ''work'', JArr (map work_to_jv (work d))),
      (js ''projects'', JArr (map project_to_jv (projects d))),
      (js ''messages'', JArr (map message_to_jv (messages d))),
      (js ''admin'', credential_to_jv (admin d))]"

text \<open>
  The typed reading of a JSON value. It is defined exactly on the images of the encoders
  above: a value with a missing, extra or differently typed member has no typed reading.
\<close>

definition get_str :: "(jstring \<times> jv) list \<Rightarrow> jstring \<Rightarrow> jstring option" where
  "get_str kvs k = (case map_of kvs k of Some (JStr s) \<Rightarrow> Some s | _ \<Rightarrow> None)"

definition get_nullable :: "(jstring \<times> jv) list \<Rightarrow> jstring \<Rightarrow> jstring option option" where
  "get_nullable kvs k =
     (case map_of kvs k of Some JNull \<Rightarrow> Some None | Some (JStr s) \<Rightarrow> Some (Some s) | _ \<Rightarrow> None)"

definition get_optional :: "(jstring \<times> jv) list \<Rightarrow> jstring \<Rightarrow> jstring option option" where
  "get_optional kvs k =
     (case map_of kvs k of None \<Rightarrow> Some None | Some (JStr s) \<Rightarrow> Some (Some s) | _ \<Rightarrow> None)"

definition get_arr :: "(jstring \<times> jv) list \<Rightarrow> jstring \<Rightarrow> jv list option" where
  "get_arr kvs k = (case map_of kvs k of Some (JArr xs) \<Rightarrow> Some xs | _ \<Rightarrow> None)"

definition jv_to_str :: "jv \<Rightarrow> jstring option" where
  "jv_to_str j = (case j of JStr s \<Rightarrow> Some s | _ \<Rightarrow> None)"

definition exactly :: "('a \<Rightarrow> jv) \<Rightarrow> jv \<Rightarrow> 'a \<Rightarrow> 'a option" where
  "exactly enc j x = (if enc x = j then Some x else None)"

definition jv_to_thought :: "jv \<Rightarrow> thought option" where
  "jv_to_thought j =
     (case j of
        JObj kvs \<Rightarrow>
          Option.bind (get_str kvs (js ''id'')) (\<lambda>i.
          Option.bind (get_str kvs (js ''title'')) (\<lambda>ti.
          Option.bind (get_str kvs (js ''category'')) (\<lambda>ca.
          Option.bind (get_str kvs (js ''content'')) (\<lambda>co.
          Option.bind (get_nullable kvs (js ''image'')) (\<lambda>im.
          Option.bind (get_str kvs (js ''created'')) (\<lambda>cr.
          Option.bind (get_optional kvs (js ''updated'')) (\<lambda>up.
          exactly thought_to_jv j
            \<lparr>t_id = i, t_title = ti, t_category = ca, t_content = co, t_image = im,
             t_created = cr, t_updated = up\<rparr>)))))))
      | _ \<Rightarrow> None)"

definition jv_to_work :: "jv \<Rightarrow> work_item option" where
  "jv_to_work j =
     (case j of
        JObj kvs \<Rightarrow>
          Option.bind (get_str kvs (js ''id'')) (\<lambda>i.
          Option.bind (get_str kvs (js ''title'')) (\<lambda>ti.
          Option.bind (Option.bind (get_arr kvs (js ''tags'')) (\<lambda>xs. those (map jv_to_str xs))) (\<lambda>ta.
          Option.bind (get_str kvs (js ''content'')) (\<lambda>co.
          Option.bind (get_nullable kvs (js ''image'')) (\<lambda>im.
          Option.bind (get_str kvs (js ''created'')) (\<lambda>cr.
          Option.bind (get_optional kvs (js ''updated'')) (\<lambda>up.
          exactly work_to_jv j
            \<lparr>w_id = i, w_title = ti, w_tags = ta, w_content = co, w_image = im,
             w_created = cr, w_updated = up\<rparr>)))))))
      | _ \<Rightarrow> None)"

definition jv_to_project :: "jv \<Rightarrow> project option" where
  "jv_to_project j =
     (case j of
        JObj kvs \<Rightarrow>
          Option.bind (get_str kvs (js ''id'')) (\<lambda>i.
          Option.bind (get_str kvs (js ''title'')) (\<lambda>ti.
          Option.bind (get_str kvs (js ''link'')) (\<lambda>li.
          Option.bind (get_str kvs (js ''desc'')) (\<lambda>de.
          Option.bind (get_nullable kvs (js ''image'')) (\<lambda>im.
          Option.bind (get_str kvs (js ''created'')) (\<lambda>cr.
          Option.bind (get_optional kvs (js ''updated'')) (\<lambda>up.
          exactly project_to_jv j
            \<lparr>p_id = i, p_title = ti, p_link = li, p_desc = de, p_image = im,
             p_created = cr, p_updated = up\<rparr>)))))))
      | _ \<Rightarrow> None)"

definition jv_to_message :: "jv \<Rightarrow> message option" where
  "jv_to_message j =
     (case j of
        JObj kvs \<Rightarrow>
          Option.bind (get_str kvs (js ''id'')) (\<lambda>i.
          Option.bind (get_str kvs (js ''name'')) (\<lambda>na.
          Option.bind (get_str kvs (js ''email'')) (\<lambda>em.
          Option.bind (get_str kvs (js ''subject'')) (\<lambda>su.
          Option.bind (get_str kvs (js ''message'')) (\<lambda>me.
          Option.bind (get_str kvs (js ''created'')) (\<lambda>cr.
          exactly message_to_jv j
            \<lparr>m_id = i, m_name = na, m_email = em, m_subject = su, m_message = me,
             m_created = cr\<rparr>))))))
      | _ \<Rightarrow> None)"

definition jv_to_credential :: "jv \<Rightarrow> credential option option" where
  "jv_to_credential j =
     (case j of
        JNull \<Rightarrow> Some None
      | JObj kvs \<Rightarrow>
          Option.bind (get_str kvs (js ''email'')) (\<lambda>em.
          Option.bind (get_str kvs (js ''passHash'')) (\<lambda>ph.
          exactly credential_to_jv j (Some \<lparr>cr_email = em, cr_passHash = ph\<rparr>)))
      | _ \<Rightarrow> None)"

definition jv_to_db :: "jv \<Rightarrow> db option" where
  "jv_to_db j =
     (case j of
        JObj kvs \<Rightarrow>
          Option.bind (Option.bind (get_arr kvs (js ''thoughts'')) (\<lambda>xs. those (map jv_to_thought xs))) (\<lambda>ts.
          Option.bind (Option.bind (get_arr kvs (js ''work'')) (\<lambda>xs. those (map jv_to_work xs))) (\<lambda>ws.
          Option.bind (Option.bind (get_arr kvs (js ''projects'')) (\<lambda>xs. those (map jv_to_project xs))) (\<lambda>ps.
          Option.bind (Option.bind (get_arr kvs (js ''messages'')) (\<lambda>xs. those (map jv_to_message xs))) (\<lambda>ms.
          Option.bind (Option.bind (map_of kvs (js ''admin'')) jv_to_credential) (\<lambda>ad.
          exactly db_to_jv j
            \<lparr>thoughts = ts, work = ws, projects = ps, messages = ms, admin = ad\<rparr>)))))
      | _ \<Rightarrow> None)"

section \<open>The store\<close>

text \<open>
  \<open>localStorage\<close> is a map from keys to strings. \<open>loadDB\<close> is the source's function with
  its \<open>try\<close>/\<open>catch\<close>: a missing or empty slot, or one that does not parse, gives a fresh
  copy of \<open>DEFAULT_DB\<close>, made by printing and parsing it; were that copy to fail, the error
  would escape, which is the \<open>Inl\<close> branch of \<open>fresh_default\<close>. \<open>saveDB\<close> replaces the slot.
  The storage quota of the browser and the page updates of \<open>updateStats\<close> and of the render
  functions are outside the model.

  \<open>load_doc\<close> and \<open>save_doc\<close> are \<open>loadDB\<close> and \<open>saveDB\<close> seen through the typed reading.
  \<open>NotADocument\<close> marks a stored value that is JSON but not a document; what the operations
  do with such a value is outside the model.
\<close>

type_synonym localStorage = "jstring \<rightharpoonup> jstring"

datatype error = SyntaxError | TypeError | ReadError | NotADocument

definition DB_KEY :: jstring where
  "DB_KEY = (js ''bhub_db_v1'')"

definition DEFAULT_DB :: jv where
  "DEFAULT_DB = JObj
     [(js ''thoughts'', JArr []), (js ''work'', JArr []), (js ''projects'', JArr []),
      (js ''messages'', JArr []), (js ''admin'', JNull)]"

definition fresh_default :: "error + jv" where
  "fresh_default =
     (case JSON_parse (JSON_stringify DEFAULT_DB) of
        None \<Rightarrow> Inl SyntaxError
      | Some v \<Rightarrow> Inr v)"

definition loadDB :: "localStorage \<Rightarrow> error + jv" where
  "loadDB ls =
     (case ls DB_KEY of
        None \<Rightarrow> fresh_default
      | Some raw \<Rightarrow>
          if raw = [] then fresh_default
          else (case JSON_parse raw of
                  Some v \<Rightarrow> Inr v
                | None \<Rightarrow> fresh_default))"

definition saveDB :: "jv \<Rightarrow> localStorage \<Rightarrow> localStorage" where
  "saveDB d ls = ls(DB_KEY \<mapsto> JSON_stringify d)"

definition resetDB :: "localStorage \<Rightarrow> localStorage" where
  "resetDB ls = ls(DB_KEY := None)"

definition load_doc :: "localStorage \<Rightarrow> error + db" where
  "load_doc ls =
     (case loadDB ls of
        Inl e \<Rightarrow> Inl e
      | Inr j \<Rightarrow> (case jv_to_db j of None \<Rightarrow> Inl NotADocument | Some d \<Rightarrow> Inr d))"

definition save_doc :: "db \<Rightarrow> localStorage \<Rightarrow> localStorage" where
  "save_doc d ls = saveDB (db_to_jv d) ls"

section \<open>Operations\<close>

text \<open>
  Each operation takes what the source reads from the page and from the host as arguments:
  the form fields, the id being edited (\<open>None\<close> for \<open>null\<close>), the text
  \<open>Math.random().toString(36)\<close> of which \<open>uid\<close> takes \<open>slice(2,9)\<close>, the time stamp
  of \<open>nowISO\<close>, the outcome of reading the image file, the outcome of \<open>fetch\<close>, and the
  digest that \<open>crypto.subtle.digest\<close> computes on the encoded password. It returns either an
  error (an exception that escapes the handler) or the notifications it shows together with
  the storage it leaves.

  \<open>trim\<close> removes the white space and the line terminators of \<open>String.prototype.trim\<close>
  from both ends.
  \<open>truthy\<close> is the source's test \<open>if(x)\<close> on a value that is a string or \<open>null\<close>.
  \<open>update_first\<close> is \<open>find\<close> followed by assignments to the object found, which is an
  element of the array: the first match is changed in place, \<open>None\<close> means \<open>find\<close> returned
  \<open>undefined\<close>.

  The definitions keep the names of the functions of \<open>script.js\<close> they embed:
  \<open>uid\<close>, \<open>fileToBase64\<close>, \<open>hashText\<close>, \<open>saveThought\<close>, \<open>deleteThought\<close>,
  \<open>saveWork\<close>, \<open>deleteWork\<close>, \<open>saveProject\<close>, \<open>deleteProject\<close>,
  \<open>saveLocalMessage\<close>, \<open>setupAdmin\<close> and \<open>loginAdmin\<close>; \<open>contactSubmit\<close> is the
  submit handler of the contact form.
\<close>

definition is_space :: "code_unit \<Rightarrow> bool" where
  "is_space c \<longleftrightarrow>
     unat c \<in> {0x09, 0x0A, 0x0B, 0x0C, 0x0D, 0x20, 0xA0, 0x1680, 0x2028, 0x2029, 0x202F,
               0x205F, 0x3000, 0xFEFF} \<or>
     (0x2000 \<le> unat c \<and> unat c \<le> 0x200A)"

definition trim :: "jstring \<Rightarrow> jstring" where
  "trim s = rev (dropWhile is_space (rev (dropWhile is_space s)))"

fun split_commas :: "jstring \<Rightarrow> jstring list" where
  "split_commas [] = [[]]"
| "split_commas (c # cs) =
     (if c = cu CHR '','' then [] # split_commas cs
      else (case split_commas cs of
              [] \<Rightarrow> [[c]]
            | p # ps \<Rightarrow> (c # p) # ps))"

definition uid :: "jstring \<Rightarrow> jstring" where
  "uid random36 = take 7 (drop 2 random36)"

definition truthy :: "jstring option \<Rightarrow> bool" where
  "truthy x = (case x of None \<Rightarrow> False | Some s \<Rightarrow> s \<noteq> [])"

datatype file_read = NoFile | ReadFailed | DataURL jstring

definition fileToBase64 :: "file_read \<Rightarrow> error + jstring option" where
  "fileToBase64 file =
     (case file of
        NoFile \<Rightarrow> Inr None
      | ReadFailed \<Rightarrow> Inl ReadError
      | DataURL s \<Rightarrow> Inr (Some s))"

definition hex2 :: "8 word \<Rightarrow> jstring" where
  "hex2 b = [hex_digit (unat b div 16), hex_digit (unat b mod 16)]"

definition hashText :: "(jstring \<Rightarrow> 8 word list) \<Rightarrow> jstring \<Rightarrow> jstring" where
  "hashText sha256 text = concat (map hex2 (sha256 text))"

datatype effect =
    Alert string
  | Toast string
  | ConsoleError
  | Post jstring jstring
  | ShowAdminPanel

type_synonym outcome = "error + (effect list \<times> localStorage)"

fun update_first :: "('a \<Rightarrow> bool) \<Rightarrow> ('a \<Rightarrow> 'a) \<Rightarrow> 'a list \<Rightarrow> 'a list option" where
  "update_first P f [] = None"
| "update_first P f (x # xs) =
     (if P x then Some (f x # xs) else map_option ((#) x) (update_first P f xs))"

record thought_form =
  thoughtTitle :: jstring
  thoughtCategory :: jstring
  thoughtContent :: jstring
  thoughtImage :: file_read

definition edit_thought :: "jstring \<Rightarrow> jstring \<Rightarrow> jstring \<Rightarrow> jstring option \<Rightarrow> jstring \<Rightarrow> thought \<Rightarrow> thought" where
  "edit_thought title category content img now t =
     (if truthy img then t\<lparr>t_image := img\<rparr> else t)
       \<lparr>t_title := title, t_category := category, t_content := content, t_updated := Some now\<rparr>"

definition saveThought :: "thought_form \<Rightarrow> jstring option \<Rightarrow> jstring \<Rightarrow> jstring \<Rightarrow> localStorage \<Rightarrow> outcome" where
  "saveThought form editingThoughtId random36 now ls =
     (let title = trim (thoughtTitle form) in
      if title = [] then Inr ([Alert ''Title required''], ls)
      else
        let category = (if trim (thoughtCategory form) = [] then (js ''Uncategorized'')
                        else trim (thoughtCategory form));
            content = trim (thoughtContent form)
        in case fileToBase64 (thoughtImage form) of
             Inl e \<Rightarrow> Inl e
           | Inr img \<Rightarrow>
               (case load_doc ls of
                  Inl e \<Rightarrow> Inl e
                | Inr d \<Rightarrow>
                    if truthy editingThoughtId then
                      (case update_first (\<lambda>x. Some (t_id x) = editingThoughtId)
                              (edit_thought title category content img now) (thoughts d) of
                         None \<Rightarrow> Inr ([Toast ''Not found''], ls)
                       | Some ts \<Rightarrow>
                           Inr ([Toast ''Thought updated''], save_doc (d\<lparr>thoughts := ts\<rparr>) ls))
                    else
                      Inr ([Toast ''Thought saved''],
                           save_doc (d\<lparr>thoughts := thoughts d @
                               [\<lparr>t_id = uid random36, t_title = title, t_category = category,
                                 t_content = content,
                                 t_image = (if truthy img then img else None),
                                 t_created = now, t_updated = None\<rparr>]\<rparr>) ls)))"

definition deleteThought :: "jstring \<Rightarrow> localStorage \<Rightarrow> outcome" where
  "deleteThought i ls =
     (case load_doc ls of
        Inl e \<Rightarrow> Inl e
      | Inr d \<Rightarrow>
          Inr ([Toast ''Thought deleted''],
               save_doc (d\<lparr>thoughts := filter (\<lambda>t. t_id t \<noteq> i) (thoughts d)\<rparr>) ls))"

record work_form =
  workTitle :: jstring
  workTags :: jstring
  workContent :: jstring
  workImage :: file_read

definition parse_tags :: "jstring \<Rightarrow> jstring list" where
  "parse_tags v = filter (\<lambda>s. s \<noteq> []) (map trim (split_commas v))"

definition edit_work :: "jstring \<Rightarrow> jstring list \<Rightarrow> jstring \<Rightarrow> jstring option \<Rightarrow> jstring \<Rightarrow> work_item \<Rightarrow> work_item" where
  "edit_work title tags content img now w =
     (if truthy img then w\<lparr>w_image := img\<rparr> else w)
       \<lparr>w_title := title, w_tags := tags, w_content := content, w_updated := Some now\<rparr>"

definition saveWork :: "work_form \<Rightarrow> jstring option \<Rightarrow> jstring \<Rightarrow> jstring \<Rightarrow> localStorage \<Rightarrow> outcome" where
  "saveWork form editingWorkId random36 now ls =
     (let title = trim (workTitle form) in
      if title = [] then Inr ([Alert ''Title required''], ls)
      else
        let tags = parse_tags (workTags form);
            content = trim (workContent form)
        in case fileToBase64 (workImage form) of
             Inl e \<Rightarrow> Inl e
           | Inr img \<Rightarrow>
               (case load_doc ls of
                  Inl e \<Rightarrow> Inl e
                | Inr d \<Rightarrow>
                    if truthy editingWorkId then
                      (case update_first (\<lambda>x. Some (w_id x) = editingWorkId)
                              (edit_work title tags content img now) (work d) of
                         None \<Rightarrow> Inl TypeError
                       | Some ws \<Rightarrow>
                           Inr ([Toast ''Work updated''], save_doc (d\<lparr>work := ws\<rparr>) ls))
                    else
                      Inr ([Toast ''Work saved''],
                           save_doc (d\<lparr>work := work d @
                               [\<lparr>w_id = uid random36, w_title = title, w_tags = tags,
                                 w_content = content,
                                 w_image = (if truthy img then img else None),
                                 w_created = now, w_updated = None\<rparr>]\<rparr>) ls)))"

definition deleteWork :: "jstring \<Rightarrow> localStorage \<Rightarrow> outcome" where
  "deleteWork i ls =
     (case load_doc ls of
        Inl e \<Rightarrow> Inl e
      | Inr d \<Rightarrow>
          Inr ([Toast ''Work deleted''],
               save_doc (d\<lparr>work := filter (\<lambda>w. w_id w \<noteq> i) (work d)\<rparr>) ls))"

record project_form =
  projectTitle :: jstring
  projectLink :: jstring
  projectDesc :: jstring
  projectImage :: file_read

definition edit_project :: "jstring \<Rightarrow> jstring \<Rightarrow> jstring \<Rightarrow> jstring option \<Rightarrow> jstring \<Rightarrow> project \<Rightarrow> project" where
  "edit_project title link desc img now p =
     (if truthy img then p\<lparr>p_image := img\<rparr> else p)
       \<lparr>p_title := title, p_link := link, p_desc := desc, p_updated := Some now\<rparr>"

definition saveProject :: "project_form \<Rightarrow> jstring option \<Rightarrow> jstring \<Rightarrow> jstring \<Rightarrow> localStorage \<Rightarrow> outcome" where
  "saveProject form editingProjectId random36 now ls =
     (let title = trim (projectTitle form) in
      if title = [] then Inr ([Alert ''Title required''], ls)
      else
        let link = trim (projectLink form);
            desc = trim (projectDesc form)
        in case fileToBase64 (projectImage form) of
             Inl e \<Rightarrow> Inl e
           | Inr img \<Rightarrow>
               (case load_doc ls of
                  Inl e \<Rightarrow> Inl e
                | Inr d \<Rightarrow>
                    if truthy editingProjectId then
                      (case update_first (\<lambda>x. Some (p_id x) = editingProjectId)
                              (edit_project title link desc img now) (projects d) of
                         None \<Rightarrow> Inl TypeError
                       | Some ps \<Rightarrow>
                           Inr ([Toast ''Project updated''], save_doc (d\<lparr>projects := ps\<rparr>) ls))
                    else
                      Inr ([Toast ''Project saved''],
                           save_doc (d\<lparr>projects := projects d @
                               [\<lparr>p_id = uid random36, p_title = title, p_link = link,
                                 p_desc = desc,
                                 p_image = (if truthy img then img else None),
                                 p_created = now, p_updated = None\<rparr>]\<rparr>) ls)))"

definition deleteProject :: "jstring \<Rightarrow> localStorage \<Rightarrow> outcome" where
  "deleteProject i ls =
     (case load_doc ls of
        Inl e \<Rightarrow> Inl e
      | Inr d \<Rightarrow>
          Inr ([Toast ''Project deleted''],
               save_doc (d\<lparr>projects := filter (\<lambda>p. p_id p \<noteq> i) (projects d)\<rparr>) ls))"

record contact_form =
  cname :: jstring
  cemail :: jstring
  csubject :: jstring
  cmessage :: jstring
  formspreeEndpoint :: jstring

record payload =
  pl_name :: jstring
  pl_email :: jstring
  pl_subject :: jstring
  pl_message :: jstring
  pl_created :: jstring

datatype fetch_result = Rejected | Response nat

definition res_ok :: "nat \<Rightarrow> bool" where
  "res_ok status \<longleftrightarrow> 200 \<le> status \<and> status \<le> 299"

definition payload_to_jv :: "payload \<Rightarrow> jv" where
  "payload_to_jv p = JObj
     [(js ''name'', JStr (pl_name p)), (js ''email'', JStr (pl_email p)),
      (js ''subject'', JStr (pl_subject p)), (js ''message'', JStr (pl_message p)),
      (js ''created'', JStr (pl_created p))]"

definition with_id :: "jstring \<Rightarrow> payload \<Rightarrow> message" where
  "with_id i p =
     \<lparr>m_id = i, m_name = pl_name p, m_email = pl_email p, m_subject = pl_subject p,
      m_message = pl_message p, m_created = pl_created p\<rparr>"

definition saveLocalMessage :: "payload \<Rightarrow> jstring \<Rightarrow> localStorage \<Rightarrow> error + localStorage" where
  "saveLocalMessage p random36 ls =
     (case load_doc ls of
        Inl e \<Rightarrow> Inl e
      | Inr d \<Rightarrow> Inr (save_doc (d\<lparr>messages := messages d @ [with_id (uid random36) p]\<rparr>) ls))"

definition payload_of :: "contact_form \<Rightarrow> jstring \<Rightarrow> payload" where
  "payload_of form now =
     \<lparr>pl_name = trim (cname form), pl_email = trim (cemail form),
      pl_subject = trim (csubject form), pl_message = trim (cmessage form),
      pl_created = now\<rparr>"

definition relay_request :: "contact_form \<Rightarrow> jstring \<Rightarrow> effect" where
  "relay_request form now =
     Post (trim (formspreeEndpoint form)) (JSON_stringify (payload_to_jv (payload_of form now)))"

definition contactSubmit :: "contact_form \<Rightarrow> fetch_result \<Rightarrow> jstring \<Rightarrow> jstring \<Rightarrow> localStorage \<Rightarrow> outcome" where
  "contactSubmit form fetch random36 now ls =
     (let name = trim (cname form);
          email = trim (cemail form);
          message = trim (cmessage form);
          endpoint = trim (formspreeEndpoint form)
      in if name = [] \<or> email = [] \<or> message = [] then Inr ([Alert ''Fill required fields''], ls)
         else
           let p = payload_of form now;
               request = relay_request form now;
               on_catch = (case saveLocalMessage p random36 ls of
                             Inl e \<Rightarrow> Inl e
                           | Inr ls' \<Rightarrow>
                               Inr ([request, ConsoleError, Toast ''Network error; saved locally''], ls'))
           in if endpoint \<noteq> [] then
                (case fetch of
                   Rejected \<Rightarrow> on_catch
                 | Response status \<Rightarrow>
                     if res_ok status then
                       Inr ([request, Toast ''Message sent via Formspree''], ls)
                     else
                       (case saveLocalMessage p random36 ls of
                          Inl e \<Rightarrow> on_catch
                        | Inr ls' \<Rightarrow>
                            Inr ([request, Toast ''Formspree returned error; saved locally''], ls')))
              else
                (case saveLocalMessage p random36 ls of
                   Inl e \<Rightarrow> Inl e
                 | Inr ls' \<Rightarrow> Inr ([Toast ''Message saved locally''], ls')))"

record admin_form =
  adminEmail :: jstring
  adminPassword :: jstring

definition setupAdmin :: "(jstring \<Rightarrow> 8 word list) \<Rightarrow> admin_form \<Rightarrow> localStorage \<Rightarrow> outcome" where
  "setupAdmin sha256 form ls =
     (let email = trim (adminEmail form);
          pass = adminPassword form
      in if email = [] \<or> pass = [] then Inr ([Alert ''Email + password required''], ls)
         else
           (case load_doc ls of
              Inl e \<Rightarrow> Inl e
            | Inr d \<Rightarrow>
                Inr ([Toast ''Admin created (local)''],
                     save_doc (d\<lparr>admin := Some \<lparr>cr_email = email,
                                                 cr_passHash = hashText sha256 pass\<rparr>\<rparr>) ls)))"

definition loginAdmin :: "(jstring \<Rightarrow> 8 word list) \<Rightarrow> admin_form \<Rightarrow> localStorage \<Rightarrow> outcome" where
  "loginAdmin sha256 form ls =
     (let email = trim (adminEmail form);
          pass = adminPassword form
      in if email = [] \<or> pass = [] then Inr ([Alert ''Email + password required''], ls)
         else
           (case load_doc ls of
              Inl e \<Rightarrow> Inl e
            | Inr d \<Rightarrow>
                (case admin d of
                   None \<Rightarrow> Inr ([Alert ''No admin set. Use Create Admin.''], ls)
                 | Some c \<Rightarrow>
                     if cr_email c = email \<and> cr_passHash c = hashText sha256 pass then
                       Inr ([ShowAdminPanel, Toast ''Logged in''], ls)
                     else Inr ([Alert ''Invalid credentials''], ls))))"

section \<open>Sample data\<close>

text \<open>Concrete documents, forms and a stand-in digest, used where a property is evaluated.\<close>

definition demo_thought_A :: thought where
  "demo_thought_A =
     \<lparr>t_id = (js ''4fzyo82''), t_title = (js ''A''), t_category = (js ''Tech''), t_content = (js ''hi''),
      t_image = Some (js ''data:image/png;base64,AAAA''),
      t_created = (js ''2024-01-01T00:00:00.000Z''), t_updated = None\<rparr>"

definition demo_thought_B :: thought where
  "demo_thought_B =
     \<lparr>t_id = (js ''k3v9x0q''), t_title = (js ''B''), t_category = (js ''Uncategorized''), t_content = [],
      t_image = None, t_created = (js ''2024-01-02T00:00:00.000Z''), t_updated = None\<rparr>"

definition demo_work :: work_item where
  "demo_work =
     \<lparr>w_id = (js ''9zq1m0a''), w_title = (js ''W''), w_tags = [(js ''x''), (js ''y'')], w_content = (js ''done''),
      w_image = Some (js ''data:image/png;base64,BBBB''),
      w_created = (js ''2024-01-03T00:00:00.000Z''), w_updated = None\<rparr>"

definition demo_project :: project where
  "demo_project =
     \<lparr>p_id = (js ''p7d2c5e''), p_title = (js ''P''), p_link = (js ''https://example.org''), p_desc = (js ''site''),
      p_image = Some (js ''data:image/png;base64,CCCC''),
      p_created = (js ''2024-01-04T00:00:00.000Z''), p_updated = None\<rparr>"

definition demo_doc :: db where
  "demo_doc =
     \<lparr>thoughts = [demo_thought_A, demo_thought_B], work = [demo_work],
      projects = [demo_project], messages = [], admin = None\<rparr>"

definition demo_store :: localStorage where
  "demo_store = save_doc demo_doc Map.empty"

definition demo_thought_form :: thought_form where
  "demo_thought_form =
     \<lparr>thoughtTitle = (js '' A2 ''), thoughtCategory = [], thoughtContent = (js ''hello''),
      thoughtImage = NoFile\<rparr>"

definition demo_work_form :: work_form where
  "demo_work_form =
     \<lparr>workTitle = (js ''W2''), workTags = (js '' a, b,,a ''), workContent = (js ''more''),
      workImage = NoFile\<rparr>"

definition demo_project_form :: project_form where
  "demo_project_form =
     \<lparr>projectTitle = (js ''P2''), projectLink = (js ''https://example.net''), projectDesc = (js ''new''),
      projectImage = NoFile\<rparr>"

definition demo_now :: jstring where
  "demo_now = (js ''2024-02-01T00:00:00.000Z'')"

definition once_saved :: db where
  "once_saved =
     \<lparr>thoughts =
        [\<lparr>t_id = (js ''4fzyo82''), t_title = (js ''A''), t_category = (js ''Tech''), t_content = (js ''hi''),
          t_image = None, t_created = (js ''2024-01-01T00:00:00.000Z''), t_updated = None\<rparr>],
      work = [], projects = [], messages = [], admin = None\<rparr>"

definition twice_saved :: db where
  "twice_saved =
     \<lparr>thoughts =
        [\<lparr>t_id = (js ''4fzyo82''), t_title = (js ''A''), t_category = (js ''Tech''), t_content = (js ''hi''),
          t_image = None, t_created = (js ''2024-01-01T00:00:00.000Z''), t_updated = None\<rparr>,
         \<lparr>t_id = (js ''4fzyo82''), t_title = (js ''B''), t_category = (js ''Uncategorized''), t_content = [],
          t_image = None, t_created = (js ''2024-01-02T00:00:00.000Z''), t_updated = None\<rparr>],
      work = [], projects = [], messages = [], admin = None\<rparr>"

definition tagged_twice :: db where
  "tagged_twice =
     \<lparr>thoughts = [],
      work =
        [\<lparr>w_id = (js ''4fzyo82''), w_title = (js ''W''), w_tags = [(js ''a''), (js ''a'')], w_content = [],
          w_image = None, w_created = (js ''2024-01-01T00:00:00.000Z''), w_updated = None\<rparr>],
      projects = [], messages = [], admin = None\<rparr>"

definition demo_admin_form :: admin_form where
  "demo_admin_form = \<lparr>adminEmail = (js '' ann@example.org ''), adminPassword = (js ''s3cret'')\<rparr>"

definition demo_contact_form :: contact_form where
  "demo_contact_form =
     \<lparr>cname = (js ''Ann''), cemail = (js ''ann@example.org''), csubject = (js ''Hi''), cmessage = (js ''Hello''),
      formspreeEndpoint = (js ''https://formspree.io/f/abc'')\<rparr>"

definition demo_digest :: "jstring \<Rightarrow> 8 word list" where
  "demo_digest text = map ucast text"

definition demo_local_form :: contact_form where
  "demo_local_form =
     \<lparr>cname = (js ''Ann''), cemail = (js ''ann@example.org''), csubject = (js ''Hi''), cmessage = (js ''Hello''),
      formspreeEndpoint = (js ''  '')\<rparr>"

definition demo_wrong_password :: admin_form where
  "demo_wrong_password = \<lparr>adminEmail = (js ''ann@example.org''), adminPassword = (js ''guess'')\<rparr>"

definition demo_blank_password :: admin_form where
  "demo_blank_password = \<lparr>adminEmail = (js ''ann@example.org''), adminPassword = []\<rparr>"

section \<open>The printer and the parser\<close>

lemma of_char_small: "(of_char c :: nat) < 65536"
proof -
  have "(of_char c :: nat) < 256" by simp
  then show ?thesis by linarith
qed

lemma unat_cu: "unat (cu c) = of_char c"
proof -
  have "cu c = of_nat (of_char c)" by (simp add: of_char_def)
  then show ?thesis using of_char_small[of c] by (simp add: unat_of_nat)
qed

lemma cu_eq_iff: "cu a = cu b \<longleftrightarrow> a = b"
  by (metis unat_cu of_char_eq_iff)

lemma inj_cu: "inj cu"
  by (rule injI) (simp add: cu_eq_iff)

lemma js_eq_iff: "js a = js b \<longleftrightarrow> a = b"
  unfolding js_def by (rule inj_map_eq_map[OF inj_cu])

lemma js_Nil_iff: "js a = [] \<longleftrightarrow> a = []"
  by (simp add: js_def)

lemma hex_digits_sum:
  "((n div 4096 * 16 + n div 256 mod 16) * 16 + n div 16 mod 16) * 16 + n mod 16 = (n::nat)"
proof -
  have d1: "n div 4096 = n div 256 div 16" and d2: "n div 256 = n div 16 div 16"
    by (simp_all add: div_mult2_eq[symmetric])
  have a: "n div 4096 * 16 + n div 256 mod 16 = n div 256"
    unfolding d1 by (rule div_mult_mod_eq)
  have b: "n div 256 * 16 + n div 16 mod 16 = n div 16"
    unfolding d2 by (rule div_mult_mod_eq)
  show ?thesis
    unfolding a b using div_mult_mod_eq[of n 16] by simp
qed

lemma hex_digits_table:
  "list_all (\<lambda>n. (let m = (of_char (''0123456789abcdef'' ! n) :: nat) in
       if 48 \<le> m \<and> m \<le> 57 then Some (m - 48)
       else if 97 \<le> m \<and> m \<le> 102 then Some (m - 87)
       else if 65 \<le> m \<and> m \<le> 70 then Some (m - 55)
       else None) = Some n) [0..<16]"
  by code_simp

lemma hex_val_hex_digit: "n < 16 \<Longrightarrow> hex_val (hex_digit n) = Some n"
  using hex_digits_table by (simp add: list_all_iff hex_val_def hex_digit_def unat_cu)

lemma unat_code_unit: "unat (c :: code_unit) < 65536"
  using unsigned_less[of c, where ?'a = nat] by simp

lemma hex4_unicode:
  fixes c :: code_unit
  shows "hex4 (hex_digit (unat c div 4096)) (hex_digit (unat c div 256 mod 16))
        (hex_digit (unat c div 16 mod 16)) (hex_digit (unat c mod 16)) = Some (unat c)"
proof -
  have "unat c div 4096 < 16" using unat_code_unit[of c] by simp
  then have a: "hex_val (hex_digit (unat c div 4096)) = Some (unat c div 4096)"
    by (rule hex_val_hex_digit)
  have b: "hex_val (hex_digit (unat c div 256 mod 16)) = Some (unat c div 256 mod 16)"
    by (rule hex_val_hex_digit) simp
  have d: "hex_val (hex_digit (unat c div 16 mod 16)) = Some (unat c div 16 mod 16)"
    by (rule hex_val_hex_digit) simp
  have e: "hex_val (hex_digit (unat c mod 16)) = Some (unat c mod 16)"
    by (rule hex_val_hex_digit) simp
  show ?thesis
    by (simp only: hex4_def a b d e prod.case option.case hex_digits_sum)
qed

lemma parse_chars_unicode_escape:
  "parse_chars (unicode_escape c @ s) = cons_fst c (parse_chars s)"
  by (simp add: unicode_escape_def hex4_unicode cu_eq_iff)

lemma parse_chars_raw:
  "c \<noteq> DQ \<Longrightarrow> c \<noteq> BSL \<Longrightarrow> \<not> unat c < 32 \<Longrightarrow>
   parse_chars (c # s) = cons_fst c (parse_chars s)"
  by simp

lemma parse_chars_escape: "parse_chars (escape_unit c @ s) = cons_fst c (parse_chars s)"
proof -
  let ?named = "{cu (CHR 0x08), cu (CHR 0x09), cu (CHR 0x0A), cu (CHR 0x0C), cu (CHR 0x0D), DQ, BSL}"
  consider (named) "c \<in> ?named"
    | (esc) "c \<notin> ?named" "unat c < 32 \<or> is_high c \<or> is_low c"
    | (plain) "c \<notin> ?named" "\<not> (unat c < 32 \<or> is_high c \<or> is_low c)"
    by blast
  then show ?thesis
  proof cases
    case named
    then show ?thesis
      by (auto simp: escape_unit_def unescape_def cu_eq_iff)
  next
    case esc
    then show ?thesis
      by (simp add: escape_unit_def parse_chars_unicode_escape del: parse_chars.simps)
  next
    case plain
    then show ?thesis
      by (simp add: escape_unit_def)
  qed
qed

lemma surrogate_raw:
  assumes "is_high c \<or> is_low c"
  shows "c \<noteq> DQ" and "c \<noteq> BSL" and "\<not> unat c < 32"
proof -
  have "unat DQ = 34" "unat BSL = 92" by (simp_all add: unat_cu)
  then show "c \<noteq> DQ" "c \<noteq> BSL" using assms by (auto simp: is_high_def is_low_def)
  show "\<not> unat c < 32" using assms by (auto simp: is_high_def is_low_def)
qed

lemma parse_chars_quote_units: "parse_chars (quote_units s @ DQ # r) = Some (s, r)"
proof (induction s rule: quote_units.induct)
  case 1
  show ?case by simp
next
  case (2 c)
  show ?case by (simp add: parse_chars_escape cons_fst_def del: parse_chars.simps) simp
next
  case (3 c d ds)
  show ?case
  proof (cases "is_high c \<and> is_low d")
    case True
    then have c: "parse_chars (c # t) = cons_fst c (parse_chars t)"
      and d: "parse_chars (d # t) = cons_fst d (parse_chars t)" for t
      using surrogate_raw[of c] surrogate_raw[of d]
      by (simp_all del: parse_chars.simps add: parse_chars_raw)
    have shape: "quote_units (c # d # ds) = c # d # quote_units ds"
      using True by simp
    show ?thesis
      using 3(1)[OF True]
      by (simp add: shape c d cons_fst_def del: parse_chars.simps quote_units.simps)
  next
    case False
    have shape: "quote_units (c # d # ds) = escape_unit c @ quote_units (d # ds)"
      using False by auto
    show ?thesis
      using 3(2)[OF False]
      by (simp add: shape parse_chars_escape cons_fst_def del: parse_chars.simps quote_units.simps)
  qed
qed

text \<open>
  From here on the simplifier keeps a code unit given by a character as it is written and
  compares two of them as characters; only its numeric value is computed.
\<close>

lemma of_char_nat_Char:
  "(of_char (Char b0 b1 b2 b3 b4 b5 b6 b7) :: nat) =
     horner_sum of_bool 2 [b0, b1, b2, b3, b4, b5, b6, b7]"
  by (rule of_char_Char)

declare of_char_Char [simp del]

declare of_char_nat_Char [simp] cu_eq_iff [simp] unat_cu [simp] js_eq_iff [simp] js_Nil_iff [simp]

lemma js_Cons: "js (c # cs) = cu c # js cs"
  by (simp add: js_def)

lemma js_Nil: "js [] = []"
  by (simp add: js_def)

lemma stringify_start:
  "storable v \<Longrightarrow> \<exists>c cs. JSON_stringify v = c # cs \<and> value_start c"
  by (cases v) (auto simp: value_start_def quote_def js_def)

lemma skip_ws_Cons: "\<not> is_ws c \<Longrightarrow> skip_ws (c # cs) = c # cs"
  by (simp add: skip_ws_def)

lemma value_start_not_ws: "value_start c \<Longrightarrow> \<not> is_ws c"
  by (auto simp: value_start_def is_ws_def)

lemma update_fresh: "k \<notin> fst ` set acc \<Longrightarrow> AList.update k v acc = acc @ [(k, v)]"
  by (induction acc) auto

lemma foldl_update_distinct:
  "distinct (map fst (acc @ ms)) \<Longrightarrow>
   foldl (\<lambda>acc (k, v). AList.update k v acc) acc ms = acc @ ms"
proof (induction ms arbitrary: acc)
  case Nil
  then show ?case by simp
next
  case (Cons m ms)
  obtain k v where m: "m = (k, v)" by (cases m)
  from Cons.prems have fresh: "k \<notin> fst ` set acc" by (auto simp: m)
  from Cons.prems have "distinct (map fst ((acc @ [m]) @ ms))" by simp
  from Cons.IH[OF this] show ?case by (simp add: m update_fresh[OF fresh])
qed

lemma make_object_distinct: "distinct (map fst ms) \<Longrightarrow> make_object ms = JObj ms"
  using foldl_update_distinct[of "[]" ms] by (simp add: make_object_def)

lemma parse_elements_printed:
  assumes ih: "\<And>x n r. x \<in> set xs \<Longrightarrow> need x \<le> n \<Longrightarrow>
                 parse_value n (JSON_stringify x @ r) = Some (x, r)"
    and "xs \<noteq> []"
    and "sum_list (map (\<lambda>x. Suc (need x)) xs) \<le> n"
  shows "parse_elements n (join_commas (map JSON_stringify xs) @ cu CHR '']'' # r) = Some (xs, r)"
  using assms
proof (induction xs arbitrary: n)
  case Nil
  then show ?case by simp
next
  case (Cons x xs)
  from Cons.prems(3) obtain m where n: "n = Suc m" and mx: "need x \<le> m"
    and ms: "sum_list (map (\<lambda>x. Suc (need x)) xs) \<le> m"
    by (cases n) auto
  show ?case
  proof (cases "xs = []")
    case True
    have "parse_value m (JSON_stringify x @ cu CHR '']'' # r) = Some (x, cu CHR '']'' # r)"
      using Cons.prems(1)[of x m] mx by simp
    then show ?thesis
      by (simp add: n True skip_ws_Cons is_ws_def)
  next
    case False
    then obtain y ys where c: "xs = y # ys" by (cases xs) auto
    let ?rest = "join_commas (map JSON_stringify xs) @ cu CHR '']'' # r"
    have pv: "parse_value m (JSON_stringify x @ cu CHR '','' # ?rest) = Some (x, cu CHR '','' # ?rest)"
      using Cons.prems(1)[of x m] mx by simp
    have pe: "parse_elements m ?rest = Some (xs, r)"
      using Cons.IH[of m] Cons.prems(1) ms False by simp
    have shape: "join_commas (map JSON_stringify (x # xs)) @ cu CHR '']'' # r
        = JSON_stringify x @ cu CHR '','' # ?rest"
      by (simp add: c)
    show ?thesis
      unfolding shape using pv pe by (simp add: n skip_ws_Cons is_ws_def cons_fst_def)
  qed
qed

lemma stringify_JObj:
  "JSON_stringify (JObj kvs) = cu CHR ''{'' # join_commas (map print_member kvs) @ [cu CHR ''}'']"
  by (simp add: print_member_def [abs_def] case_prod_beta comp_def)

lemma parse_members_printed:
  assumes ih: "\<And>kv n r. kv \<in> set kvs \<Longrightarrow> need (snd kv) \<le> n \<Longrightarrow>
                 parse_value n (JSON_stringify (snd kv) @ r) = Some (snd kv, r)"
    and "kvs \<noteq> []"
    and "sum_list (map (\<lambda>kv. Suc (need (snd kv))) kvs) \<le> n"
  shows "parse_members n (join_commas (map print_member kvs) @ cu CHR ''}'' # r) = Some (kvs, r)"
  using assms
proof (induction kvs arbitrary: n)
  case Nil
  then show ?case by simp
next
  case (Cons kv kvs)
  obtain k v where kv: "kv = (k, v)" by (cases kv)
  from Cons.prems(3) obtain m where n: "n = Suc m" and mx: "need v \<le> m"
    and ms: "sum_list (map (\<lambda>kv. Suc (need (snd kv))) kvs) \<le> m"
    by (cases n) (auto simp: kv)
  have key: "\<And>t. parse_chars (quote_units k @ DQ # t) = Some (k, t)"
    by (rule parse_chars_quote_units)
  show ?case
  proof (cases "kvs = []")
    case True
    have "parse_value m (JSON_stringify v @ cu CHR ''}'' # r) = Some (v, cu CHR ''}'' # r)"
      using Cons.prems(1)[of kv m] mx by (simp add: kv)
    then show ?thesis
      by (simp add: n True kv print_member_def quote_def skip_ws_Cons is_ws_def key)
  next
    case False
    then obtain kv' kvs' where c: "kvs = kv' # kvs'" by (cases kvs) auto
    let ?rest = "join_commas (map print_member kvs) @ cu CHR ''}'' # r"
    have pv: "parse_value m (JSON_stringify v @ cu CHR '','' # ?rest) = Some (v, cu CHR '','' # ?rest)"
      using Cons.prems(1)[of kv m] mx by (simp add: kv)
    have pe: "parse_members m ?rest = Some (kvs, r)"
      using Cons.IH[of m] Cons.prems(1) ms False by simp
    have shape: "join_commas (map print_member (kv # kvs)) @ cu CHR ''}'' # r
        = DQ # quote_units k @ DQ # cu CHR '':'' # JSON_stringify v @ cu CHR '','' # ?rest"
      by (simp add: c kv print_member_def quote_def)
    show ?thesis
      unfolding shape using pv pe
      by (simp add: n skip_ws_Cons is_ws_def key cons_fst_def kv)
  qed
qed

lemma parse_value_printed:
  "storable v \<Longrightarrow> need v \<le> n \<Longrightarrow> parse_value n (JSON_stringify v @ r) = Some (v, r)"
proof (induction v arbitrary: n r)
  case JNull
  then show ?case by (cases n) (simp_all add: skip_ws_Cons is_ws_def js_Cons js_Nil)
next
  case (JBool b)
  then show ?case by (cases n) (simp_all add: skip_ws_Cons is_ws_def js_Cons js_Nil)
next
  case (JNum l)
  then show ?case by simp
next
  case (JStr s)
  then show ?case
    by (cases n) (simp_all add: quote_def skip_ws_Cons is_ws_def parse_chars_quote_units)
next
  case (JArr xs)
  from JArr.prems(2) obtain m where n: "n = Suc m"
    and m: "sum_list (map (\<lambda>x. Suc (need x)) xs) \<le> m"
    by (cases n) auto
  show ?case
  proof (cases "xs = []")
    case True
    then show ?thesis by (simp add: n skip_ws_Cons is_ws_def)
  next
    case False
    then obtain y ys where c: "xs = y # ys" by (cases xs) auto
    have "storable y" using JArr.prems(1) c by simp
    from stringify_start[OF this] obtain d ds where
      d: "JSON_stringify y = d # ds" and vs: "value_start d" by blast
    let ?body = "join_commas (map JSON_stringify xs) @ cu CHR '']'' # r"
    have hd_body: "\<exists>t. ?body = d # t"
      by (cases ys) (simp_all add: c d)
    then obtain t where body: "?body = d # t" by blast
    have pe: "parse_elements m ?body = Some (xs, r)"
      using JArr.IH JArr.prems(1) False m by (intro parse_elements_printed) auto
    have dne: "d \<noteq> cu CHR '']''" "\<not> is_ws d"
      using vs by (auto simp: value_start_def is_ws_def)
    have "parse_value (Suc m) (cu CHR ''['' # ?body) = Some (JArr xs, r)"
      using pe dne unfolding body by (simp add: skip_ws_Cons is_ws_def)
    then show ?thesis by (simp add: n)
  qed
next
  case (JObj kvs)
  from JObj.prems(2) obtain m where n: "n = Suc m"
    and m: "sum_list (map (\<lambda>kv. Suc (need (snd kv))) kvs) \<le> m"
    by (cases n) auto
  from JObj.prems(1) have dist: "distinct (map fst kvs)"
    and st: "\<And>kv. kv \<in> set kvs \<Longrightarrow> storable (snd kv)" by auto
  show ?case
  proof (cases "kvs = []")
    case True
    then show ?thesis by (simp add: n skip_ws_Cons is_ws_def)
  next
    case False
    then obtain y ys where c: "kvs = y # ys" by (cases kvs) auto
    let ?body = "join_commas (map print_member kvs) @ cu CHR ''}'' # r"
    have "\<exists>t. ?body = DQ # t"
      by (cases ys) (simp_all add: c print_member_def quote_def)
    then obtain t where body: "?body = DQ # t" by blast
    have ih: "\<And>kv n r. kv \<in> set kvs \<Longrightarrow> need (snd kv) \<le> n \<Longrightarrow>
                 parse_value n (JSON_stringify (snd kv) @ r) = Some (snd kv, r)"
    proof -
      fix kv n r assume a: "kv \<in> set kvs" "need (snd kv) \<le> n"
      have "snd kv \<in> Basic_BNFs.snds kv" by (cases kv) simp
      from JObj.IH[OF a(1) this st[OF a(1)] a(2)]
      show "parse_value n (JSON_stringify (snd kv) @ r) = Some (snd kv, r)" .
    qed
    have pe: "parse_members m ?body = Some (kvs, r)"
      using ih False m by (intro parse_members_printed) auto
    have "parse_value (Suc m) (cu CHR ''{'' # ?body) = Some (JObj kvs, r)"
      using pe unfolding body
      by (simp add: skip_ws_Cons is_ws_def make_object_distinct[OF dist])
    then show ?thesis by (simp add: n stringify_JObj del: JSON_stringify.simps)
  qed
qed

lemma join_commas_length:
  "ss \<noteq> [] \<Longrightarrow> Suc (length (join_commas ss)) = sum_list (map (\<lambda>s. Suc (length s)) ss)"
  by (induction ss rule: join_commas.induct) simp_all

lemma need_le_length: "storable v \<Longrightarrow> need v \<le> length (JSON_stringify v)"
proof (induction v)
  case (JArr xs)
  show ?case
  proof (cases "xs = []")
    case True
    then show ?thesis by simp
  next
    case False
    have "sum_list (map (\<lambda>x. Suc (need x)) xs) \<le> sum_list (map (\<lambda>x. Suc (length (JSON_stringify x))) xs)"
      using JArr by (intro sum_list_mono) auto
    also have "\<dots> = Suc (length (join_commas (map JSON_stringify xs)))"
      using join_commas_length[of "map JSON_stringify xs"] False by (simp add: comp_def)
    finally show ?thesis by simp
  qed
next
  case (JObj kvs)
  show ?case
  proof (cases "kvs = []")
    case True
    then show ?thesis by simp
  next
    case False
    have "sum_list (map (\<lambda>kv. Suc (need (snd kv))) kvs) \<le> sum_list (map (\<lambda>kv. Suc (length (print_member kv))) kvs)"
    proof (intro sum_list_mono)
      fix kv assume a: "kv \<in> set kvs"
      have "snd kv \<in> Basic_BNFs.snds kv" by (cases kv) simp
      from JObj.IH[OF a this] JObj.prems a
      show "Suc (need (snd kv)) \<le> Suc (length (print_member kv))"
        by (auto simp: print_member_def)
    qed
    also have "\<dots> = Suc (length (join_commas (map print_member kvs)))"
      using join_commas_length[of "map print_member kvs"] False by (simp add: comp_def)
    finally show ?thesis by (simp add: stringify_JObj del: JSON_stringify.simps)
  qed
qed (simp_all add: quote_def js_def)

lemma JSON_parse_stringify: "storable v \<Longrightarrow> JSON_parse (JSON_stringify v) = Some v"
proof -
  assume s: "storable v"
  have "need v \<le> Suc (2 * length (JSON_stringify v))"
    using need_le_length[OF s] by simp
  from parse_value_printed[OF s this, of "[]"] show ?thesis
    by (simp add: JSON_parse_def skip_ws_def)
qed

lemma stringify_nonempty: "storable v \<Longrightarrow> JSON_stringify v \<noteq> []"
  using stringify_start by fastforce

lemma loadDB_saveDB: "storable v \<Longrightarrow> loadDB (saveDB v ls) = Inr v"
  by (simp add: loadDB_def saveDB_def stringify_nonempty JSON_parse_stringify)

text \<open>
  Code units above U+00FF are read and written: an escaped one and a raw one parse to the
  same string, and a surrogate on its own is printed as an escape.
\<close>

lemma parse_above_latin1:
  "JSON_parse [DQ, BSL, cu CHR ''u'', cu CHR ''2'', cu CHR ''0'', cu CHR ''1'', cu CHR ''4'', DQ] =
     Some (JStr [0x2014])"
  "JSON_parse [DQ, 0x2014, DQ] = Some (JStr [0x2014])"
  "JSON_stringify (JStr [0x2014]) = [DQ, 0x2014, DQ]"
  "JSON_stringify (JStr [0xD83D]) =
     [DQ, BSL, cu CHR ''u'', cu CHR ''d'', cu CHR ''8'', cu CHR ''3'', cu CHR ''d'', DQ]"
proof -
  have "parse_value (Suc n)
      [DQ, BSL, cu CHR ''u'', cu CHR ''2'', cu CHR ''0'', cu CHR ''1'', cu CHR ''4'', DQ] =
      Some (JStr [0x2014], [])" for n
    by (simp add: skip_ws_def is_ws_def hex4_def hex_val_def cons_fst_def)
  from this [of 16]
  show "JSON_parse [DQ, BSL, cu CHR ''u'', cu CHR ''2'', cu CHR ''0'', cu CHR ''1'', cu CHR ''4'', DQ] =
     Some (JStr [0x2014])"
    by (simp add: JSON_parse_def skip_ws_def)
  have "parse_value (Suc n) [DQ, 0x2014, DQ] = Some (JStr [0x2014], [])" for n
    by (simp add: skip_ws_def is_ws_def cons_fst_def word_eq_iff_unsigned [where ?'a = nat])
  from this [of 6]
  show "JSON_parse [DQ, 0x2014, DQ] = Some (JStr [0x2014])"
    by (simp add: JSON_parse_def skip_ws_def)
  show "JSON_stringify (JStr [0x2014]) = [DQ, 0x2014, DQ]"
    by (simp add: quote_def escape_unit_def is_high_def is_low_def
        word_eq_iff_unsigned [where ?'a = nat])
  show "JSON_stringify (JStr [0xD83D]) =
     [DQ, BSL, cu CHR ''u'', cu CHR ''d'', cu CHR ''8'', cu CHR ''3'', cu CHR ''d'', DQ]"
    by (simp add: quote_def escape_unit_def is_high_def is_low_def unicode_escape_def
        hex_digit_def word_eq_iff_unsigned [where ?'a = nat])
qed

section \<open>The typed reading and the store\<close>

lemma those_map_decode:
  "(\<And>x. dec (enc x) = Some x) \<Longrightarrow> those (map (dec \<circ> enc) xs) = Some xs"
  by (induction xs) simp_all

lemma jv_to_thought_inverse: "jv_to_thought (thought_to_jv t) = Some t"
  by (cases "t_updated t")
     (simp_all add: jv_to_thought_def thought_to_jv_def get_str_def get_nullable_def
        get_optional_def exactly_def nullable_def updated_member_def split: option.splits)

lemma those_map_JStr: "those (map (jv_to_str \<circ> JStr) xs) = Some xs"
  by (rule those_map_decode) (simp add: jv_to_str_def)

lemma jv_to_work_inverse: "jv_to_work (work_to_jv w) = Some w"
  by (cases "w_updated w")
     (simp_all add: jv_to_work_def work_to_jv_def get_str_def get_nullable_def get_arr_def
        get_optional_def exactly_def nullable_def updated_member_def those_map_JStr
        split: option.splits)

lemma jv_to_project_inverse: "jv_to_project (project_to_jv p) = Some p"
  by (cases "p_updated p")
     (simp_all add: jv_to_project_def project_to_jv_def get_str_def get_nullable_def
        get_optional_def exactly_def nullable_def updated_member_def split: option.splits)

lemma jv_to_message_inverse: "jv_to_message (message_to_jv m) = Some m"
  by (simp add: jv_to_message_def message_to_jv_def get_str_def exactly_def)

lemma jv_to_credential_inverse: "jv_to_credential (credential_to_jv a) = Some a"
  by (cases a) (simp_all add: jv_to_credential_def credential_to_jv_def get_str_def exactly_def)

lemma jv_to_db_inverse: "jv_to_db (db_to_jv d) = Some d"
  by (simp add: jv_to_db_def db_to_jv_def get_arr_def exactly_def jv_to_credential_inverse
      those_map_decode[of jv_to_thought thought_to_jv, OF jv_to_thought_inverse]
      those_map_decode[of jv_to_work work_to_jv, OF jv_to_work_inverse]
      those_map_decode[of jv_to_project project_to_jv, OF jv_to_project_inverse]
      those_map_decode[of jv_to_message message_to_jv, OF jv_to_message_inverse])

lemma storable_nullable: "storable (nullable x)"
  by (cases x) (simp_all add: nullable_def)

lemma storable_thought: "storable (thought_to_jv t)"
  by (cases "t_updated t") (simp_all add: thought_to_jv_def updated_member_def storable_nullable)

lemma storable_work: "storable (work_to_jv w)"
  by (cases "w_updated w") (auto simp: work_to_jv_def updated_member_def storable_nullable)

lemma storable_project: "storable (project_to_jv p)"
  by (cases "p_updated p") (simp_all add: project_to_jv_def updated_member_def storable_nullable)

lemma storable_message: "storable (message_to_jv m)"
  by (simp add: message_to_jv_def)

lemma storable_credential: "storable (credential_to_jv a)"
  by (cases a) (simp_all add: credential_to_jv_def)

lemma storable_db: "storable (db_to_jv d)"
  by (auto simp: db_to_jv_def storable_thought storable_work storable_project
      storable_message storable_credential)

lemma load_doc_save_doc: "load_doc (save_doc d ls) = Inr d"
  by (simp add: load_doc_def save_doc_def loadDB_saveDB storable_db jv_to_db_inverse)

lemma DEFAULT_DB_doc:
  "DEFAULT_DB = db_to_jv \<lparr>thoughts = [], work = [], projects = [], messages = [], admin = None\<rparr>"
  by (simp add: DEFAULT_DB_def db_to_jv_def credential_to_jv_def)

lemma fresh_default_value: "fresh_default = Inr DEFAULT_DB"
  by (simp add: fresh_default_def DEFAULT_DB_doc JSON_parse_stringify storable_db)

section \<open>The operations\<close>

lemma update_first_split:
  "(\<forall>a \<in> set as. \<not> P a) \<Longrightarrow> P x \<Longrightarrow> update_first P f (as @ x # bs) = Some (as @ f x # bs)"
  by (induction as) simp_all

lemma update_first_none: "(\<forall>a \<in> set xs. \<not> P a) \<Longrightarrow> update_first P f xs = None"
  by (induction xs) simp_all

lemma filter_absent: "i \<notin> g ` set xs \<Longrightarrow> filter (\<lambda>y. g y \<noteq> i) xs = xs"
  by (induction xs) auto

lemma filter_split:
  assumes "distinct (map g (as @ x # bs))"
  shows "filter (\<lambda>y. g y \<noteq> g x) (as @ x # bs) = as @ bs"
proof -
  from assms have "g x \<notin> g ` set as" and "g x \<notin> g ` set bs" by auto
  then show ?thesis by (simp add: filter_absent)
qed

lemma truthy_Some: "truthy (Some i) \<longleftrightarrow> i \<noteq> []"
  by (simp add: truthy_def)

lemma truthy_None: "\<not> truthy None"
  by (simp add: truthy_def)

lemma saveThought_create:
  assumes "load_doc ls = Inr d" and "trim (thoughtTitle form) \<noteq> []"
    and "fileToBase64 (thoughtImage form) = Inr img" and "\<not> truthy e"
  shows "saveThought form e r now ls =
     Inr ([Toast ''Thought saved''],
          save_doc (d\<lparr>thoughts := thoughts d @
            [\<lparr>t_id = uid r, t_title = trim (thoughtTitle form),
              t_category = (if trim (thoughtCategory form) = [] then (js ''Uncategorized'')
                            else trim (thoughtCategory form)),
              t_content = trim (thoughtContent form),
              t_image = (if truthy img then img else None),
              t_created = now, t_updated = None\<rparr>]\<rparr>) ls)"
  using assms by (simp add: saveThought_def Let_def)

lemma saveThought_edit:
  assumes "load_doc ls = Inr d" and "trim (thoughtTitle form) \<noteq> []"
    and "fileToBase64 (thoughtImage form) = Inr img" and "i \<noteq> []"
    and "thoughts d = as @ t # bs" and "t_id t = i" and "\<forall>a \<in> set as. t_id a \<noteq> i"
  shows "saveThought form (Some i) r now ls =
     Inr ([Toast ''Thought updated''],
          save_doc (d\<lparr>thoughts := as @
            edit_thought (trim (thoughtTitle form))
              (if trim (thoughtCategory form) = [] then (js ''Uncategorized'')
               else trim (thoughtCategory form))
              (trim (thoughtContent form)) img now t # bs\<rparr>) ls)"
proof -
  have "update_first (\<lambda>x. Some (t_id x) = Some i) f (as @ t # bs) = Some (as @ f t # bs)" for f
    using assms(6,7) by (intro update_first_split) auto
  then show ?thesis
    using assms(1-5) by (simp add: saveThought_def Let_def truthy_Some)
qed

lemma saveThought_missing:
  assumes "load_doc ls = Inr d" and "trim (thoughtTitle form) \<noteq> []"
    and "fileToBase64 (thoughtImage form) = Inr img" and "i \<noteq> []"
    and "i \<notin> t_id ` set (thoughts d)"
  shows "saveThought form (Some i) r now ls = Inr ([Toast ''Not found''], ls)"
proof -
  have "update_first (\<lambda>x. Some (t_id x) = Some i) f (thoughts d) = None" for f
    using assms(5) by (intro update_first_none) auto
  then show ?thesis
    using assms(1-4) by (simp add: saveThought_def Let_def truthy_Some)
qed

lemma deleteThought_effect:
  "load_doc ls = Inr d \<Longrightarrow>
   deleteThought i ls =
     Inr ([Toast ''Thought deleted''],
          save_doc (d\<lparr>thoughts := filter (\<lambda>t. t_id t \<noteq> i) (thoughts d)\<rparr>) ls)"
  by (simp add: deleteThought_def)

lemma saveWork_create:
  assumes "load_doc ls = Inr d" and "trim (workTitle form) \<noteq> []"
    and "fileToBase64 (workImage form) = Inr img" and "\<not> truthy e"
  shows "saveWork form e r now ls =
     Inr ([Toast ''Work saved''],
          save_doc (d\<lparr>work := work d @
            [\<lparr>w_id = uid r, w_title = trim (workTitle form),
              w_tags = parse_tags (workTags form),
              w_content = trim (workContent form),
              w_image = (if truthy img then img else None),
              w_created = now, w_updated = None\<rparr>]\<rparr>) ls)"
  using assms by (simp add: saveWork_def Let_def)

lemma saveWork_edit:
  assumes "load_doc ls = Inr d" and "trim (workTitle form) \<noteq> []"
    and "fileToBase64 (workImage form) = Inr img" and "i \<noteq> []"
    and "work d = as @ w # bs" and "w_id w = i" and "\<forall>a \<in> set as. w_id a \<noteq> i"
  shows "saveWork form (Some i) r now ls =
     Inr ([Toast ''Work updated''],
          save_doc (d\<lparr>work := as @
            edit_work (trim (workTitle form)) (parse_tags (workTags form))
              (trim (workContent form)) img now w # bs\<rparr>) ls)"
proof -
  have "update_first (\<lambda>x. Some (w_id x) = Some i) f (as @ w # bs) = Some (as @ f w # bs)" for f
    using assms(6,7) by (intro update_first_split) auto
  then show ?thesis
    using assms(1-5) by (simp add: saveWork_def Let_def truthy_Some)
qed

lemma saveWork_missing:
  assumes "load_doc ls = Inr d" and "trim (workTitle form) \<noteq> []"
    and "fileToBase64 (workImage form) = Inr img" and "i \<noteq> []"
    and "i \<notin> w_id ` set (work d)"
  shows "saveWork form (Some i) r now ls = Inl TypeError"
proof -
  have "update_first (\<lambda>x. Some (w_id x) = Some i) f (work d) = None" for f
    using assms(5) by (intro update_first_none) auto
  then show ?thesis
    using assms(1-4) by (simp add: saveWork_def Let_def truthy_Some)
qed

lemma deleteWork_effect:
  "load_doc ls = Inr d \<Longrightarrow>
   deleteWork i ls =
     Inr ([Toast ''Work deleted''],
          save_doc (d\<lparr>work := filter (\<lambda>w. w_id w \<noteq> i) (work d)\<rparr>) ls)"
  by (simp add: deleteWork_def)

lemma saveProject_create:
  assumes "load_doc ls = Inr d" and "trim (projectTitle form) \<noteq> []"
    and "fileToBase64 (projectImage form) = Inr img" and "\<not> truthy e"
  shows "saveProject form e r now ls =
     Inr ([Toast ''Project saved''],
          save_doc (d\<lparr>projects := projects d @
            [\<lparr>p_id = uid r, p_title = trim (projectTitle form),
              p_link = trim (projectLink form),
              p_desc = trim (projectDesc form),
              p_image = (if truthy img then img else None),
              p_created = now, p_updated = None\<rparr>]\<rparr>) ls)"
  using assms by (simp add: saveProject_def Let_def)

lemma saveProject_edit:
  assumes "load_doc ls = Inr d" and "trim (projectTitle form) \<noteq> []"
    and "fileToBase64 (projectImage form) = Inr img" and "i \<noteq> []"
    and "projects d = as @ p # bs" and "p_id p = i" and "\<forall>a \<in> set as. p_id a \<noteq> i"
  shows "saveProject form (Some i) r now ls =
     Inr ([Toast ''Project updated''],
          save_doc (d\<lparr>projects := as @
            edit_project (trim (projectTitle form)) (trim (projectLink form))
              (trim (projectDesc form)) img now p # bs\<rparr>) ls)"
proof -
  have "update_first (\<lambda>x. Some (p_id x) = Some i) f (as @ p # bs) = Some (as @ f p # bs)" for f
    using assms(6,7) by (intro update_first_split) auto
  then show ?thesis
    using assms(1-5) by (simp add: saveProject_def Let_def truthy_Some)
qed

lemma saveProject_missing:
  assumes "load_doc ls = Inr d" and "trim (projectTitle form) \<noteq> []"
    and "fileToBase64 (projectImage form) = Inr img" and "i \<noteq> []"
    and "i \<notin> p_id ` set (projects d)"
  shows "saveProject form (Some i) r now ls = Inl TypeError"
proof -
  have "update_first (\<lambda>x. Some (p_id x) = Some i) f (projects d) = None" for f
    using assms(5) by (intro update_first_none) auto
  then show ?thesis
    using assms(1-4) by (simp add: saveProject_def Let_def truthy_Some)
qed

lemma deleteProject_effect:
  "load_doc ls = Inr d \<Longrightarrow>
   deleteProject i ls =
     Inr ([Toast ''Project deleted''],
          save_doc (d\<lparr>projects := filter (\<lambda>p. p_id p \<noteq> i) (projects d)\<rparr>) ls)"
  by (simp add: deleteProject_def)

lemma saveLocalMessage_effect:
  "load_doc ls = Inr d \<Longrightarrow>
   saveLocalMessage p r ls = Inr (save_doc (d\<lparr>messages := messages d @ [with_id (uid r) p]\<rparr>) ls)"
  by (simp add: saveLocalMessage_def)

lemma load_doc_empty:
  "load_doc Map.empty = Inr \<lparr>thoughts = [], work = [], projects = [], messages = [], admin = None\<rparr>"
  by (simp add: load_doc_def loadDB_def fresh_default_value DEFAULT_DB_doc jv_to_db_inverse)

lemma trim_Nil: "trim [] = []"
  by (simp add: trim_def)

lemma trim_decompose:
  "dropWhile is_space s = trim s @ rev (takeWhile is_space (rev (dropWhile is_space s)))"
proof -
  let ?s = "dropWhile is_space s"
  have "rev (dropWhile is_space (rev ?s)) @ rev (takeWhile is_space (rev ?s))
      = rev (takeWhile is_space (rev ?s) @ dropWhile is_space (rev ?s))"
    by (simp only: rev_append)
  also have "\<dots> = rev (rev ?s)" by (simp only: takeWhile_dropWhile_id)
  also have "\<dots> = ?s" by simp
  finally show ?thesis by (simp add: trim_def)
qed

lemma trim_edges:
  assumes "trim s \<noteq> []"
  shows "\<not> is_space (hd (trim s))" and "\<not> is_space (last (trim s))"
proof -
  let ?s = "dropWhile is_space s"
  from assms have ne: "dropWhile is_space (rev ?s) \<noteq> []" by (simp add: trim_def)
  have "last (trim s) = hd (dropWhile is_space (rev ?s))"
    using ne by (simp add: trim_def last_rev)
  then show "\<not> is_space (last (trim s))"
    using hd_dropWhile[OF ne] by simp
  have sne: "?s \<noteq> []"
  proof
    assume "?s = []"
    with ne show False by simp
  qed
  have "hd ?s = hd (trim s)"
    using trim_decompose[of s] assms by (metis hd_append2)
  then show "\<not> is_space (hd (trim s))"
    using hd_dropWhile[OF sne] by simp
qed

lemma trim_fixed:
  assumes "t \<noteq> []" and "\<not> is_space (hd t)" and "\<not> is_space (last t)"
  shows "trim t = t"
proof -
  from assms(1,2) have a: "dropWhile is_space t = t" by (cases t) simp_all
  from assms(1,3) have "dropWhile is_space (rev t) = rev t"
    by (cases "rev t") (simp_all add: last_rev)
  then show ?thesis by (simp add: trim_def a)
qed

lemma trim_idem: "trim (trim s) = trim s"
  by (cases "trim s = []") (simp_all add: trim_Nil trim_edges trim_fixed)

lemma parse_tags_member:
  assumes "t \<in> set (parse_tags v)"
  shows "t \<noteq> [] \<and> trim t = t \<and> \<not> is_space (hd t) \<and> \<not> is_space (last t)"
proof -
  from assms obtain s where t: "t = trim s" and ne: "t \<noteq> []"
    by (auto simp: parse_tags_def)
  then show ?thesis by (simp add: trim_idem trim_edges)
qed

lemma hex_digit_inj: "a < 16 \<Longrightarrow> b < 16 \<Longrightarrow> hex_digit a = hex_digit b \<Longrightarrow> a = b"
  by (metis hex_val_hex_digit option.inject)

lemma hex2_inj: "hex2 a = hex2 b \<Longrightarrow> a = b"
proof -
  assume h: "hex2 a = hex2 b"
  have "unat a < 256" "unat b < 256"
    using unsigned_less[of a, where ?'a = nat] unsigned_less[of b, where ?'a = nat] by simp_all
  then have hi: "unat a div 16 < 16" "unat b div 16 < 16" by simp_all
  from h have e1: "hex_digit (unat a div 16) = hex_digit (unat b div 16)"
    and e2: "hex_digit (unat a mod 16) = hex_digit (unat b mod 16)"
    by (simp_all add: hex2_def)
  have d: "unat a div 16 = unat b div 16"
    using hi e1 by (rule hex_digit_inj)
  have m: "unat a mod 16 = unat b mod 16"
    by (rule hex_digit_inj[OF _ _ e2]) simp_all
  have "unat a = unat b"
    using d m by (metis div_mult_mod_eq)
  then show ?thesis by (rule unsigned_word_eqI)
qed

lemma concat_hex2_inj: "concat (map hex2 xs) = concat (map hex2 ys) \<Longrightarrow> xs = ys"
proof (induction xs arbitrary: ys)
  case Nil
  then show ?case by (cases ys) (simp_all add: hex2_def)
next
  case (Cons x xs)
  then obtain y ys' where ys: "ys = y # ys'" by (cases ys) (auto simp: hex2_def)
  have two: "length (hex2 x) = length (hex2 y)" by (simp add: hex2_def)
  from Cons.prems have "hex2 x @ concat (map hex2 xs) = hex2 y @ concat (map hex2 ys')"
    by (simp add: ys)
  with two have "hex2 x = hex2 y" "concat (map hex2 xs) = concat (map hex2 ys')"
    by simp_all
  then show ?case using Cons.IH hex2_inj by (simp add: ys)
qed

lemma hashText_eq_iff: "hashText sha256 a = hashText sha256 b \<longleftrightarrow> sha256 a = sha256 b"
  by (auto simp: hashText_def dest: concat_hex2_inj)

lemma file_readable: "src \<noteq> ReadFailed \<Longrightarrow> \<exists>img. fileToBase64 src = Inr img"
  by (cases src) (simp_all add: fileToBase64_def)

lemma no_file_falsy: "fileToBase64 NoFile = Inr img \<Longrightarrow> \<not> truthy img"
  by (simp add: fileToBase64_def truthy_def)

lemma distinct_snoc_id:
  "distinct (map g (xs @ [x])) \<longleftrightarrow> distinct (map g xs) \<and> g x \<notin> g ` set xs"
  by auto

lemma thought_created:
  assumes "load_doc ls = Inr d" and "trim (thoughtTitle form) \<noteq> []"
    and "thoughtImage form \<noteq> ReadFailed" and "\<not> truthy e"
  shows "\<exists>t ls'. saveThought form e r now ls = Inr ([Toast ''Thought saved''], ls') \<and>
           load_doc ls' = Inr (d\<lparr>thoughts := thoughts d @ [t]\<rparr>) \<and>
           t_id t = uid r \<and> t_created t = now \<and> t_updated t = None"
proof -
  from file_readable[OF assms(3)] obtain img
    where img: "fileToBase64 (thoughtImage form) = Inr img" ..
  show ?thesis
    unfolding saveThought_create[OF assms(1,2) img assms(4)]
    by (intro exI conjI, rule refl, rule load_doc_save_doc) simp_all
qed

lemma thought_edited:
  assumes "load_doc ls = Inr d" and "trim (thoughtTitle form) \<noteq> []"
    and "thoughtImage form \<noteq> ReadFailed" and "t_id t \<noteq> []"
    and "thoughts d = as @ t # bs" and "\<forall>a \<in> set as. t_id a \<noteq> t_id t"
  shows "\<exists>t' ls'. saveThought form (Some (t_id t)) r now ls = Inr ([Toast ''Thought updated''], ls') \<and>
           load_doc ls' = Inr (d\<lparr>thoughts := as @ t' # bs\<rparr>) \<and>
           t_id t' = t_id t \<and> t_created t' = t_created t \<and> t_updated t' = Some now \<and>
           (thoughtImage form = NoFile \<longrightarrow> t_image t' = t_image t)"
proof -
  from file_readable[OF assms(3)] obtain img
    where img: "fileToBase64 (thoughtImage form) = Inr img" ..
  have keep: "thoughtImage form = NoFile \<Longrightarrow> \<not> truthy img"
    using img no_file_falsy by simp
  show ?thesis
    unfolding saveThought_edit[OF assms(1,2) img assms(4,5) refl assms(6)]
    by (intro exI conjI, rule refl, rule load_doc_save_doc) (simp_all add: edit_thought_def keep)
qed

lemma work_created:
  assumes "load_doc ls = Inr d" and "trim (workTitle form) \<noteq> []"
    and "workImage form \<noteq> ReadFailed" and "\<not> truthy e"
  shows "\<exists>w ls'. saveWork form e r now ls = Inr ([Toast ''Work saved''], ls') \<and>
           load_doc ls' = Inr (d\<lparr>work := work d @ [w]\<rparr>) \<and>
           w_id w = uid r \<and> w_created w = now \<and> w_updated w = None \<and>
           w_tags w = parse_tags (workTags form)"
proof -
  from file_readable[OF assms(3)] obtain img
    where img: "fileToBase64 (workImage form) = Inr img" ..
  show ?thesis
    unfolding saveWork_create[OF assms(1,2) img assms(4)]
    by (intro exI conjI, rule refl, rule load_doc_save_doc) simp_all
qed

lemma work_edited:
  assumes "load_doc ls = Inr d" and "trim (workTitle form) \<noteq> []"
    and "workImage form \<noteq> ReadFailed" and "w_id w \<noteq> []"
    and "work d = as @ w # bs" and "\<forall>a \<in> set as. w_id a \<noteq> w_id w"
  shows "\<exists>w' ls'. saveWork form (Some (w_id w)) r now ls = Inr ([Toast ''Work updated''], ls') \<and>
           load_doc ls' = Inr (d\<lparr>work := as @ w' # bs\<rparr>) \<and>
           w_id w' = w_id w \<and> w_created w' = w_created w \<and> w_updated w' = Some now \<and>
           w_tags w' = parse_tags (workTags form) \<and>
           (workImage form = NoFile \<longrightarrow> w_image w' = w_image w)"
proof -
  from file_readable[OF assms(3)] obtain img
    where img: "fileToBase64 (workImage form) = Inr img" ..
  have keep: "workImage form = NoFile \<Longrightarrow> \<not> truthy img"
    using img no_file_falsy by simp
  show ?thesis
    unfolding saveWork_edit[OF assms(1,2) img assms(4,5) refl assms(6)]
    by (intro exI conjI, rule refl, rule load_doc_save_doc) (simp_all add: edit_work_def keep)
qed

lemma project_created:
  assumes "load_doc ls = Inr d" and "trim (projectTitle form) \<noteq> []"
    and "projectImage form \<noteq> ReadFailed" and "\<not> truthy e"
  shows "\<exists>p ls'. saveProject form e r now ls = Inr ([Toast ''Project saved''], ls') \<and>
           load_doc ls' = Inr (d\<lparr>projects := projects d @ [p]\<rparr>) \<and>
           p_id p = uid r \<and> p_created p = now \<and> p_updated p = None"
proof -
  from file_readable[OF assms(3)] obtain img
    where img: "fileToBase64 (projectImage form) = Inr img" ..
  show ?thesis
    unfolding saveProject_create[OF assms(1,2) img assms(4)]
    by (intro exI conjI, rule refl, rule load_doc_save_doc) simp_all
qed

lemma project_edited:
  assumes "load_doc ls = Inr d" and "trim (projectTitle form) \<noteq> []"
    and "projectImage form \<noteq> ReadFailed" and "p_id p \<noteq> []"
    and "projects d = as @ p # bs" and "\<forall>a \<in> set as. p_id a \<noteq> p_id p"
  shows "\<exists>p' ls'. saveProject form (Some (p_id p)) r now ls = Inr ([Toast ''Project updated''], ls') \<and>
           load_doc ls' = Inr (d\<lparr>projects := as @ p' # bs\<rparr>) \<and>
           p_id p' = p_id p \<and> p_created p' = p_created p \<and> p_updated p' = Some now \<and>
           (projectImage form = NoFile \<longrightarrow> p_image p' = p_image p)"
proof -
  from file_readable[OF assms(3)] obtain img
    where img: "fileToBase64 (projectImage form) = Inr img" ..
  have keep: "projectImage form = NoFile \<Longrightarrow> \<not> truthy img"
    using img no_file_falsy by simp
  show ?thesis
    unfolding saveProject_edit[OF assms(1,2) img assms(4,5) refl assms(6)]
    by (intro exI conjI, rule refl, rule load_doc_save_doc) (simp_all add: edit_project_def keep)
qed

lemma message_created:
  assumes "load_doc ls = Inr d"
  shows "\<exists>m ls'. saveLocalMessage p r ls = Inr ls' \<and>
           load_doc ls' = Inr (d\<lparr>messages := messages d @ [m]\<rparr>) \<and>
           m_id m = uid r \<and> m_created m = pl_created p"
  unfolding saveLocalMessage_effect[OF assms]
  by (intro exI conjI, rule refl, rule load_doc_save_doc) (simp_all add: with_id_def)

lemma load_doc_demo: "load_doc demo_store = Inr demo_doc"
  by (simp add: demo_store_def load_doc_save_doc)

lemma trim_demo:
  "trim (js '' A2 '') = (js ''A2'')" "trim (js ''W2'') = (js ''W2'')" "trim (js ''P2'') = (js ''P2'')"
  "trim [] = []" "trim (js '' '') = []"
  by (simp_all add: trim_def is_space_def js_def)

lemma contact_saved:
  assumes "load_doc ls = Inr d"
    and "trim (cname form) \<noteq> []" and "trim (cemail form) \<noteq> []" and "trim (cmessage form) \<noteq> []"
    and "trim (formspreeEndpoint form) = [] \<or> fetch = Rejected \<or>
         (fetch = Response status \<and> \<not> res_ok status)"
  shows "\<exists>fx. contactSubmit form fetch r now ls =
           Inr (fx, save_doc (d\<lparr>messages := messages d @
             [\<lparr>m_id = take 7 (drop 2 r), m_name = trim (cname form),
               m_email = trim (cemail form), m_subject = trim (csubject form),
               m_message = trim (cmessage form), m_created = now\<rparr>]\<rparr>) ls)"
proof -
  have kept: "saveLocalMessage (payload_of form now) r ls =
      Inr (save_doc (d\<lparr>messages := messages d @
             [\<lparr>m_id = take 7 (drop 2 r), m_name = trim (cname form),
               m_email = trim (cemail form), m_subject = trim (csubject form),
               m_message = trim (cmessage form), m_created = now\<rparr>]\<rparr>) ls)"
    by (simp add: saveLocalMessage_effect[OF assms(1)] with_id_def payload_of_def uid_def)
  show ?thesis
    using assms(2-5) kept
    by (auto simp: contactSubmit_def Let_def split: fetch_result.splits)
qed

lemma demo_facts:
  "distinct (map t_id (thoughts demo_doc))"
  "thoughts demo_doc = [demo_thought_A] @ demo_thought_B # []"
  "distinct (map w_id (work demo_doc))"
  "work demo_doc = [] @ demo_work # []"
  "distinct (map p_id (projects demo_doc))"
  "projects demo_doc = [] @ demo_project # []"
  "t_id demo_thought_B \<noteq> []" "w_id demo_work \<noteq> []" "p_id demo_project \<noteq> []"
  "\<forall>a \<in> set [demo_thought_A]. t_id a \<noteq> t_id demo_thought_B"
  "trim (thoughtTitle demo_thought_form) \<noteq> []"
  "thoughtImage demo_thought_form \<noteq> ReadFailed"
  "thoughtImage demo_thought_form = NoFile"
  "trim (workTitle demo_work_form) \<noteq> []"
  "workImage demo_work_form \<noteq> ReadFailed"
  "workImage demo_work_form = NoFile"
  "trim (projectTitle demo_project_form) \<noteq> []"
  "projectImage demo_project_form \<noteq> ReadFailed"
  "projectImage demo_project_form = NoFile"
  by (simp_all add: demo_doc_def demo_thought_A_def demo_thought_B_def demo_work_def
      demo_project_def demo_thought_form_def demo_work_form_def demo_project_form_def trim_demo)

lemma demo_admin_facts:
  "trim (adminEmail demo_admin_form) = (js ''ann@example.org'')"
  "adminPassword demo_admin_form = (js ''s3cret'')"
  "trim (adminEmail demo_wrong_password) = (js ''ann@example.org'')"
  "adminPassword demo_wrong_password = (js ''guess'')"
  "trim (adminEmail demo_blank_password) = (js ''ann@example.org'')"
  "adminPassword demo_blank_password = []"
  "demo_digest (js ''guess'') \<noteq> demo_digest (js ''s3cret'')"
  by (simp_all add: demo_admin_form_def demo_wrong_password_def demo_blank_password_def
      demo_digest_def trim_def is_space_def js_def)

lemma demo_contact_facts:
  "trim (cname demo_contact_form) \<noteq> []" "trim (cemail demo_contact_form) \<noteq> []"
  "trim (cmessage demo_contact_form) \<noteq> []" "trim (formspreeEndpoint demo_contact_form) \<noteq> []"
  "trim (cname demo_local_form) \<noteq> []" "trim (cemail demo_local_form) \<noteq> []"
  "trim (cmessage demo_local_form) \<noteq> []" "trim (formspreeEndpoint demo_local_form) = []"
  "res_ok 200" "\<not> res_ok 503"
  by (simp_all add: demo_contact_form_def demo_local_form_def trim_def is_space_def js_def res_ok_def)

lemma demo_tags: "parse_tags (workTags demo_work_form) = [(js ''a''), (js ''b''), (js ''a'')]"
  by (simp add: parse_tags_def demo_work_form_def trim_def is_space_def js_def)

section \<open>The claims of the specification\<close>

text \<open>
  Claim C1. For every valid document \<open>d\<close>, saving \<open>d\<close> and then loading returns a document
  equal to \<open>d\<close>. A valid document is a value of the record type \<open>db\<close>; it is stored as the
  JSON value \<open>db_to_jv d\<close>. The value loaded is the value saved, and its typed reading is
  \<open>d\<close> again, whatever the storage held before.
\<close>

theorem load_after_save: "loadDB (saveDB (db_to_jv d) ls) = Inr (db_to_jv d) \<and> load_doc (save_doc d ls) = Inr d"
  by (simp add: loadDB_saveDB storable_db load_doc_save_doc)

text \<open>
  Claim C2. For every persisted state \<open>ls\<close>, \<open>loadDB\<close> returns a value and never an error.
  When the slot is missing, or holds a text that \<open>JSON_parse\<close> rejects, the value is the
  default document: its four collections are empty and it has no admin credential.
\<close>

theorem loadDB_total:
  "(\<exists>v. loadDB ls = Inr v) \<and>
   (ls DB_KEY = None \<or> (\<exists>raw. ls DB_KEY = Some raw \<and> JSON_parse raw = None) \<longrightarrow>
      loadDB ls = Inr DEFAULT_DB \<and>
      load_doc ls = Inr \<lparr>thoughts = [], work = [], projects = [], messages = [], admin = None\<rparr>)"
proof -
  have total: "\<exists>v. loadDB ls = Inr v"
    by (simp add: loadDB_def fresh_default_value split: option.splits)
  have dflt: "jv_to_db DEFAULT_DB =
      Some \<lparr>thoughts = [], work = [], projects = [], messages = [], admin = None\<rparr>"
    unfolding DEFAULT_DB_doc by (rule jv_to_db_inverse)
  have "loadDB ls = Inr DEFAULT_DB"
    if "ls DB_KEY = None \<or> (\<exists>raw. ls DB_KEY = Some raw \<and> JSON_parse raw = None)"
    using that by (auto simp: loadDB_def fresh_default_value)
  then show ?thesis
    using total by (auto simp: load_doc_def dflt)
qed

theorem loadDB_total_witness:
  "loadDB Map.empty = Inr DEFAULT_DB \<and>
   (\<exists>raw. [DB_KEY \<mapsto> (js ''{oops'')] DB_KEY = Some raw \<and> JSON_parse raw = None) \<and>
   loadDB [DB_KEY \<mapsto> (js ''{oops'')] = Inr DEFAULT_DB \<and>
   load_doc [DB_KEY \<mapsto> (js ''{oops'')] =
     Inr \<lparr>thoughts = [], work = [], projects = [], messages = [], admin = None\<rparr>"
proof -
  have "parse_value (Suc (Suc n)) (js ''{oops'') = None" for n
    by (simp add: js_def skip_ws_def is_ws_def)
  from this [of 9] have bad: "JSON_parse (js ''{oops'') = None"
    by (simp add: JSON_parse_def js_def)
  then have h: "\<exists>raw. [DB_KEY \<mapsto> (js ''{oops'')] DB_KEY = Some raw \<and> JSON_parse raw = None"
    by simp
  have missing: "Map.empty DB_KEY = None" by simp
  show ?thesis
    using loadDB_total [of Map.empty] loadDB_total [of "[DB_KEY \<mapsto> (js ''{oops'')]"] h missing
    by blast
qed

text \<open>
  Two thoughts saved one after the other into an empty store receive the same id when the
  two random texts agree on the seven characters after \<open>0.\<close>: \<open>uid\<close> is not checked against the ids
  already present.
\<close>

theorem create_repeats_id:
  "saveThought \<lparr>thoughtTitle = (js ''A''), thoughtCategory = (js ''Tech''), thoughtContent = (js ''hi''),
                thoughtImage = NoFile\<rparr>
     None (js ''0.4fzyo82aaaa'') (js ''2024-01-01T00:00:00.000Z'') Map.empty =
     Inr ([Toast ''Thought saved''], save_doc once_saved Map.empty) \<and>
   saveThought \<lparr>thoughtTitle = (js ''B''), thoughtCategory = [], thoughtContent = [],
                thoughtImage = NoFile\<rparr>
     None (js ''0.4fzyo82bbbb'') (js ''2024-01-02T00:00:00.000Z'') (save_doc once_saved Map.empty) =
     Inr ([Toast ''Thought saved''], save_doc twice_saved (save_doc once_saved Map.empty)) \<and>
   load_doc (save_doc twice_saved (save_doc once_saved Map.empty)) = Inr twice_saved \<and>
   map t_id (thoughts twice_saved) = [(js ''4fzyo82''), (js ''4fzyo82'')] \<and>
   \<not> distinct (map t_id (thoughts twice_saved))"
proof -
  have t: "trim (js ''A'') = (js ''A'')" "trim (js ''B'') = (js ''B'')" "trim (js ''Tech'') = (js ''Tech'')"
    "trim (js ''hi'') = (js ''hi'')" "trim [] = []"
    by (simp_all add: trim_def is_space_def js_def)
  have f: "fileToBase64 NoFile = Inr None" by (simp add: fileToBase64_def)
  have u: "uid (js ''0.4fzyo82aaaa'') = js ''4fzyo82''" "uid (js ''0.4fzyo82bbbb'') = js ''4fzyo82''"
    by (simp_all add: uid_def js_def)
  have one: "saveThought \<lparr>thoughtTitle = (js ''A''), thoughtCategory = (js ''Tech''), thoughtContent = (js ''hi''),
                thoughtImage = NoFile\<rparr>
     None (js ''0.4fzyo82aaaa'') (js ''2024-01-01T00:00:00.000Z'') Map.empty =
     Inr ([Toast ''Thought saved''], save_doc once_saved Map.empty)"
    by (subst saveThought_create[OF load_doc_empty _ _ truthy_None, where img = None])
       (simp_all add: t f u once_saved_def truthy_def)
  have two: "saveThought \<lparr>thoughtTitle = (js ''B''), thoughtCategory = [], thoughtContent = [],
                thoughtImage = NoFile\<rparr>
     None (js ''0.4fzyo82bbbb'') (js ''2024-01-02T00:00:00.000Z'') (save_doc once_saved Map.empty) =
     Inr ([Toast ''Thought saved''], save_doc twice_saved (save_doc once_saved Map.empty))"
    by (subst saveThought_create[OF load_doc_save_doc _ _ truthy_None, where img = None])
       (simp_all add: t f u once_saved_def twice_saved_def truthy_def)
  show ?thesis
    using one two by (simp add: load_doc_save_doc) (simp add: twice_saved_def)
qed

text \<open>
  Claim C3, as amended. Saving a new thought, work item or project, or submitting a contact
  form whose message is kept locally, appends one record. Its id is \<open>slice(2,9)\<close> of the
  random text, that is the text without its first two characters cut to seven characters
  (fewer when the text is shorter than nine), and its created field is the current time
  stamp; a thought, work item or project has no updated field yet. The ids of the collection
  stay distinct exactly when they were distinct and the new id was not among them. Editing
  with a non-empty id changes the first record of that id in place: its id and created fields
  are kept and its updated field is set to the time stamp; the other records are untouched.
\<close>

theorem created_and_edited_records:
  assumes "load_doc ls = Inr d"
  shows
    "(trim (thoughtTitle tform) \<noteq> [] \<and> thoughtImage tform \<noteq> ReadFailed \<and> \<not> truthy e \<longrightarrow>
        (\<exists>t ls'. saveThought tform e r now ls = Inr ([Toast ''Thought saved''], ls') \<and>
           load_doc ls' = Inr (d\<lparr>thoughts := thoughts d @ [t]\<rparr>) \<and>
           t_id t = take 7 (drop 2 r) \<and> t_created t = now \<and> t_updated t = None \<and>
           (distinct (map t_id (thoughts d @ [t])) \<longleftrightarrow>
              distinct (map t_id (thoughts d)) \<and> take 7 (drop 2 r) \<notin> t_id ` set (thoughts d)))) \<and>
     (trim (workTitle wform) \<noteq> [] \<and> workImage wform \<noteq> ReadFailed \<and> \<not> truthy e \<longrightarrow>
        (\<exists>w ls'. saveWork wform e r now ls = Inr ([Toast ''Work saved''], ls') \<and>
           load_doc ls' = Inr (d\<lparr>work := work d @ [w]\<rparr>) \<and>
           w_id w = take 7 (drop 2 r) \<and> w_created w = now \<and> w_updated w = None \<and>
           (distinct (map w_id (work d @ [w])) \<longleftrightarrow>
              distinct (map w_id (work d)) \<and> take 7 (drop 2 r) \<notin> w_id ` set (work d)))) \<and>
     (trim (projectTitle pform) \<noteq> [] \<and> projectImage pform \<noteq> ReadFailed \<and> \<not> truthy e \<longrightarrow>
        (\<exists>p ls'. saveProject pform e r now ls = Inr ([Toast ''Project saved''], ls') \<and>
           load_doc ls' = Inr (d\<lparr>projects := projects d @ [p]\<rparr>) \<and>
           p_id p = take 7 (drop 2 r) \<and> p_created p = now \<and> p_updated p = None \<and>
           (distinct (map p_id (projects d @ [p])) \<longleftrightarrow>
              distinct (map p_id (projects d)) \<and> take 7 (drop 2 r) \<notin> p_id ` set (projects d)))) \<and>
     (trim (cname cform) \<noteq> [] \<and> trim (cemail cform) \<noteq> [] \<and> trim (cmessage cform) \<noteq> [] \<and>
      (trim (formspreeEndpoint cform) = [] \<or> fetch = Rejected \<or>
       (fetch = Response status \<and> \<not> res_ok status)) \<longrightarrow>
        (\<exists>m fx ls'. contactSubmit cform fetch r now ls = Inr (fx, ls') \<and>
           load_doc ls' = Inr (d\<lparr>messages := messages d @ [m]\<rparr>) \<and>
           m_id m = take 7 (drop 2 r) \<and> m_created m = now \<and>
           (distinct (map m_id (messages d @ [m])) \<longleftrightarrow>
              distinct (map m_id (messages d)) \<and> take 7 (drop 2 r) \<notin> m_id ` set (messages d)))) \<and>
     (trim (thoughtTitle tform) \<noteq> [] \<and> thoughtImage tform \<noteq> ReadFailed \<and> t_id t0 \<noteq> [] \<and>
      thoughts d = tas @ t0 # tbs \<and> (\<forall>a \<in> set tas. t_id a \<noteq> t_id t0) \<longrightarrow>
        (\<exists>t' ls'. saveThought tform (Some (t_id t0)) r now ls = Inr ([Toast ''Thought updated''], ls') \<and>
           load_doc ls' = Inr (d\<lparr>thoughts := tas @ t' # tbs\<rparr>) \<and>
           t_id t' = t_id t0 \<and> t_created t' = t_created t0 \<and> t_updated t' = Some now)) \<and>
     (trim (workTitle wform) \<noteq> [] \<and> workImage wform \<noteq> ReadFailed \<and> w_id w0 \<noteq> [] \<and>
      work d = was @ w0 # wbs \<and> (\<forall>a \<in> set was. w_id a \<noteq> w_id w0) \<longrightarrow>
        (\<exists>w' ls'. saveWork wform (Some (w_id w0)) r now ls = Inr ([Toast ''Work updated''], ls') \<and>
           load_doc ls' = Inr (d\<lparr>work := was @ w' # wbs\<rparr>) \<and>
           w_id w' = w_id w0 \<and> w_created w' = w_created w0 \<and> w_updated w' = Some now)) \<and>
     (trim (projectTitle pform) \<noteq> [] \<and> projectImage pform \<noteq> ReadFailed \<and> p_id p0 \<noteq> [] \<and>
      projects d = pas @ p0 # pbs \<and> (\<forall>a \<in> set pas. p_id a \<noteq> p_id p0) \<longrightarrow>
        (\<exists>p' ls'. saveProject pform (Some (p_id p0)) r now ls = Inr ([Toast ''Project updated''], ls') \<and>
           load_doc ls' = Inr (d\<lparr>projects := pas @ p' # pbs\<rparr>) \<and>
           p_id p' = p_id p0 \<and> p_created p' = p_created p0 \<and> p_updated p' = Some now))"
proof (intro conjI impI)
  assume "trim (thoughtTitle tform) \<noteq> [] \<and> thoughtImage tform \<noteq> ReadFailed \<and> \<not> truthy e"
  then obtain t ls' where
    "saveThought tform e r now ls = Inr ([Toast ''Thought saved''], ls')"
    "load_doc ls' = Inr (d\<lparr>thoughts := thoughts d @ [t]\<rparr>)"
    "t_id t = take 7 (drop 2 r)" "t_created t = now" "t_updated t = None"
    using thought_created[OF assms, of tform e r now] unfolding uid_def by blast
  then show "\<exists>t ls'. saveThought tform e r now ls = Inr ([Toast ''Thought saved''], ls') \<and>
           load_doc ls' = Inr (d\<lparr>thoughts := thoughts d @ [t]\<rparr>) \<and>
           t_id t = take 7 (drop 2 r) \<and> t_created t = now \<and> t_updated t = None \<and>
           (distinct (map t_id (thoughts d @ [t])) \<longleftrightarrow>
              distinct (map t_id (thoughts d)) \<and> take 7 (drop 2 r) \<notin> t_id ` set (thoughts d))"
    using distinct_snoc_id[of t_id "thoughts d" t] by metis
next
  assume "trim (workTitle wform) \<noteq> [] \<and> workImage wform \<noteq> ReadFailed \<and> \<not> truthy e"
  then obtain w ls' where
    "saveWork wform e r now ls = Inr ([Toast ''Work saved''], ls')"
    "load_doc ls' = Inr (d\<lparr>work := work d @ [w]\<rparr>)"
    "w_id w = take 7 (drop 2 r)" "w_created w = now" "w_updated w = None"
    using work_created[OF assms, of wform e r now] unfolding uid_def by blast
  then show "\<exists>w ls'. saveWork wform e r now ls = Inr ([Toast ''Work saved''], ls') \<and>
           load_doc ls' = Inr (d\<lparr>work := work d @ [w]\<rparr>) \<and>
           w_id w = take 7 (drop 2 r) \<and> w_created w = now \<and> w_updated w = None \<and>
           (distinct (map w_id (work d @ [w])) \<longleftrightarrow>
              distinct (map w_id (work d)) \<and> take 7 (drop 2 r) \<notin> w_id ` set (work d))"
    using distinct_snoc_id[of w_id "work d" w] by metis
next
  assume "trim (projectTitle pform) \<noteq> [] \<and> projectImage pform \<noteq> ReadFailed \<and> \<not> truthy e"
  then obtain p ls' where
    "saveProject pform e r now ls = Inr ([Toast ''Project saved''], ls')"
    "load_doc ls' = Inr (d\<lparr>projects := projects d @ [p]\<rparr>)"
    "p_id p = take 7 (drop 2 r)" "p_created p = now" "p_updated p = None"
    using project_created[OF assms, of pform e r now] unfolding uid_def by blast
  then show "\<exists>p ls'. saveProject pform e r now ls = Inr ([Toast ''Project saved''], ls') \<and>
           load_doc ls' = Inr (d\<lparr>projects := projects d @ [p]\<rparr>) \<and>
           p_id p = take 7 (drop 2 r) \<and> p_created p = now \<and> p_updated p = None \<and>
           (distinct (map p_id (projects d @ [p])) \<longleftrightarrow>
              distinct (map p_id (projects d)) \<and> take 7 (drop 2 r) \<notin> p_id ` set (projects d))"
    using distinct_snoc_id[of p_id "projects d" p] by metis
next
  let ?m = "\<lparr>m_id = take 7 (drop 2 r), m_name = trim (cname cform),
             m_email = trim (cemail cform), m_subject = trim (csubject cform),
             m_message = trim (cmessage cform), m_created = now\<rparr>"
  assume a: "trim (cname cform) \<noteq> [] \<and> trim (cemail cform) \<noteq> [] \<and> trim (cmessage cform) \<noteq> [] \<and>
      (trim (formspreeEndpoint cform) = [] \<or> fetch = Rejected \<or>
       (fetch = Response status \<and> \<not> res_ok status))"
  then obtain fx where sub: "contactSubmit cform fetch r now ls =
      Inr (fx, save_doc (d\<lparr>messages := messages d @ [?m]\<rparr>) ls)"
    using contact_saved[OF assms, of cform fetch status r now] by blast
  have stored: "load_doc (save_doc (d\<lparr>messages := messages d @ [?m]\<rparr>) ls) =
      Inr (d\<lparr>messages := messages d @ [?m]\<rparr>)"
    by (rule load_doc_save_doc)
  have ids: "m_id ?m = take 7 (drop 2 r)" "m_created ?m = now" by simp_all
  show "\<exists>m fx ls'. contactSubmit cform fetch r now ls = Inr (fx, ls') \<and>
           load_doc ls' = Inr (d\<lparr>messages := messages d @ [m]\<rparr>) \<and>
           m_id m = take 7 (drop 2 r) \<and> m_created m = now \<and>
           (distinct (map m_id (messages d @ [m])) \<longleftrightarrow>
              distinct (map m_id (messages d)) \<and> take 7 (drop 2 r) \<notin> m_id ` set (messages d))"
    using sub stored ids distinct_snoc_id[of m_id "messages d" ?m] by metis
next
  assume "trim (thoughtTitle tform) \<noteq> [] \<and> thoughtImage tform \<noteq> ReadFailed \<and> t_id t0 \<noteq> [] \<and>
      thoughts d = tas @ t0 # tbs \<and> (\<forall>a \<in> set tas. t_id a \<noteq> t_id t0)"
  then show "\<exists>t' ls'. saveThought tform (Some (t_id t0)) r now ls = Inr ([Toast ''Thought updated''], ls') \<and>
           load_doc ls' = Inr (d\<lparr>thoughts := tas @ t' # tbs\<rparr>) \<and>
           t_id t' = t_id t0 \<and> t_created t' = t_created t0 \<and> t_updated t' = Some now"
    using thought_edited[OF assms, of tform t0 tas tbs r now] by blast
next
  assume "trim (workTitle wform) \<noteq> [] \<and> workImage wform \<noteq> ReadFailed \<and> w_id w0 \<noteq> [] \<and>
      work d = was @ w0 # wbs \<and> (\<forall>a \<in> set was. w_id a \<noteq> w_id w0)"
  then show "\<exists>w' ls'. saveWork wform (Some (w_id w0)) r now ls = Inr ([Toast ''Work updated''], ls') \<and>
           load_doc ls' = Inr (d\<lparr>work := was @ w' # wbs\<rparr>) \<and>
           w_id w' = w_id w0 \<and> w_created w' = w_created w0 \<and> w_updated w' = Some now"
    using work_edited[OF assms, of wform w0 was wbs r now] by blast
next
  assume "trim (projectTitle pform) \<noteq> [] \<and> projectImage pform \<noteq> ReadFailed \<and> p_id p0 \<noteq> [] \<and>
      projects d = pas @ p0 # pbs \<and> (\<forall>a \<in> set pas. p_id a \<noteq> p_id p0)"
  then show "\<exists>p' ls'. saveProject pform (Some (p_id p0)) r now ls = Inr ([Toast ''Project updated''], ls') \<and>
           load_doc ls' = Inr (d\<lparr>projects := pas @ p' # pbs\<rparr>) \<and>
           p_id p' = p_id p0 \<and> p_created p' = p_created p0 \<and> p_updated p' = Some now"
    using project_edited[OF assms, of pform p0 pas pbs r now] by blast
qed

theorem created_and_edited_records_witness:
  "load_doc demo_store = Inr demo_doc \<and>
   trim (thoughtTitle demo_thought_form) \<noteq> [] \<and> thoughtImage demo_thought_form \<noteq> ReadFailed \<and>
   \<not> truthy None \<and>
   (\<exists>t ls'. saveThought demo_thought_form None (js ''0.zz11yy22xx'') demo_now demo_store =
               Inr ([Toast ''Thought saved''], ls') \<and>
           load_doc ls' = Inr (demo_doc\<lparr>thoughts := thoughts demo_doc @ [t]\<rparr>) \<and>
           t_id t = take 7 (drop 2 (js ''0.zz11yy22xx'')) \<and> t_created t = demo_now \<and> t_updated t = None \<and>
           (distinct (map t_id (thoughts demo_doc @ [t])) \<longleftrightarrow>
              distinct (map t_id (thoughts demo_doc)) \<and>
              take 7 (drop 2 (js ''0.zz11yy22xx'')) \<notin> t_id ` set (thoughts demo_doc))) \<and>
   trim (workTitle demo_work_form) \<noteq> [] \<and> workImage demo_work_form \<noteq> ReadFailed \<and>
   (\<exists>w ls'. saveWork demo_work_form None (js ''0.zz11yy22xx'') demo_now demo_store =
               Inr ([Toast ''Work saved''], ls') \<and>
           load_doc ls' = Inr (demo_doc\<lparr>work := work demo_doc @ [w]\<rparr>) \<and>
           w_id w = take 7 (drop 2 (js ''0.zz11yy22xx'')) \<and> w_created w = demo_now \<and> w_updated w = None \<and>
           (distinct (map w_id (work demo_doc @ [w])) \<longleftrightarrow>
              distinct (map w_id (work demo_doc)) \<and>
              take 7 (drop 2 (js ''0.zz11yy22xx'')) \<notin> w_id ` set (work demo_doc))) \<and>
   trim (projectTitle demo_project_form) \<noteq> [] \<and> projectImage demo_project_form \<noteq> ReadFailed \<and>
   (\<exists>p ls'. saveProject demo_project_form None (js ''0.zz11yy22xx'') demo_now demo_store =
               Inr ([Toast ''Project saved''], ls') \<and>
           load_doc ls' = Inr (demo_doc\<lparr>projects := projects demo_doc @ [p]\<rparr>) \<and>
           p_id p = take 7 (drop 2 (js ''0.zz11yy22xx'')) \<and> p_created p = demo_now \<and> p_updated p = None \<and>
           (distinct (map p_id (projects demo_doc @ [p])) \<longleftrightarrow>
              distinct (map p_id (projects demo_doc)) \<and>
              take 7 (drop 2 (js ''0.zz11yy22xx'')) \<notin> p_id ` set (projects demo_doc))) \<and>
   trim (cname demo_contact_form) \<noteq> [] \<and> trim (cemail demo_contact_form) \<noteq> [] \<and>
   trim (cmessage demo_contact_form) \<noteq> [] \<and> \<not> res_ok 503 \<and>
   (\<exists>m fx ls'. contactSubmit demo_contact_form (Response 503) (js ''0.zz11yy22xx'') demo_now
                 demo_store = Inr (fx, ls') \<and>
           load_doc ls' = Inr (demo_doc\<lparr>messages := messages demo_doc @ [m]\<rparr>) \<and>
           m_id m = take 7 (drop 2 (js ''0.zz11yy22xx'')) \<and> m_created m = demo_now \<and>
           (distinct (map m_id (messages demo_doc @ [m])) \<longleftrightarrow>
              distinct (map m_id (messages demo_doc)) \<and>
              take 7 (drop 2 (js ''0.zz11yy22xx'')) \<notin> m_id ` set (messages demo_doc))) \<and>
   take 7 (drop 2 (js ''0.zz11yy22xx'')) = js ''zz11yy2'' \<and>
   t_id demo_thought_B \<noteq> [] \<and> thoughts demo_doc = [demo_thought_A] @ demo_thought_B # [] \<and>
   (\<exists>t' ls'. saveThought demo_thought_form (Some (t_id demo_thought_B)) (js ''0.zz11yy22xx'') demo_now
                demo_store = Inr ([Toast ''Thought updated''], ls') \<and>
           load_doc ls' = Inr (demo_doc\<lparr>thoughts := [demo_thought_A] @ t' # []\<rparr>) \<and>
           t_id t' = t_id demo_thought_B \<and> t_created t' = t_created demo_thought_B \<and>
           t_updated t' = Some demo_now) \<and>
   w_id demo_work \<noteq> [] \<and> work demo_doc = [] @ demo_work # [] \<and>
   (\<exists>w' ls'. saveWork demo_work_form (Some (w_id demo_work)) (js ''0.zz11yy22xx'') demo_now
                demo_store = Inr ([Toast ''Work updated''], ls') \<and>
           load_doc ls' = Inr (demo_doc\<lparr>work := [] @ w' # []\<rparr>) \<and>
           w_id w' = w_id demo_work \<and> w_created w' = w_created demo_work \<and>
           w_updated w' = Some demo_now) \<and>
   p_id demo_project \<noteq> [] \<and> projects demo_doc = [] @ demo_project # [] \<and>
   (\<exists>p' ls'. saveProject demo_project_form (Some (p_id demo_project)) (js ''0.zz11yy22xx'') demo_now
                demo_store = Inr ([Toast ''Project updated''], ls') \<and>
           load_doc ls' = Inr (demo_doc\<lparr>projects := [] @ p' # []\<rparr>) \<and>
           p_id p' = p_id demo_project \<and> p_created p' = p_created demo_project \<and>
           p_updated p' = Some demo_now)"
proof -
  note T = created_and_edited_records [OF load_doc_demo,
      where tform = demo_thought_form and wform = demo_work_form and pform = demo_project_form
        and e = None and r = "(js ''0.zz11yy22xx'')" and now = demo_now
        and cform = demo_contact_form and fetch = "Response 503" and status = 503
        and tas = "[demo_thought_A]" and ?t0.0 = demo_thought_B and tbs = "[]"
        and was = "[]" and ?w0.0 = demo_work and wbs = "[]"
        and pas = "[]" and ?p0.0 = demo_project and pbs = "[]"]
  have e: "\<forall>a \<in> set []. w_id a \<noteq> w_id demo_work" "\<forall>a \<in> set []. p_id a \<noteq> p_id demo_project"
    by simp_all
  have u: "take 7 (drop 2 (js ''0.zz11yy22xx'')) = js ''zz11yy2''"
    by (simp add: js_def)
  show ?thesis
    using T load_doc_demo demo_facts demo_contact_facts(1-3,10) truthy_None e u by blast
qed

text \<open>
  Claim C4. In a document whose thoughts have pairwise distinct ids, deleting by the id of a
  thought \<open>t\<close> removes \<open>t\<close> and leaves the thoughts before and after it as they were, in
  the same order; likewise for work items and projects. The other collections and the
  credential are not changed.
\<close>

theorem delete_removes_exactly:
  assumes "load_doc ls = Inr d"
  shows
    "(distinct (map t_id (thoughts d)) \<and> thoughts d = tas @ t # tbs \<longrightarrow>
        (\<exists>ls'. deleteThought (t_id t) ls = Inr ([Toast ''Thought deleted''], ls') \<and>
               load_doc ls' = Inr (d\<lparr>thoughts := tas @ tbs\<rparr>))) \<and>
     (distinct (map w_id (work d)) \<and> work d = was @ w # wbs \<longrightarrow>
        (\<exists>ls'. deleteWork (w_id w) ls = Inr ([Toast ''Work deleted''], ls') \<and>
               load_doc ls' = Inr (d\<lparr>work := was @ wbs\<rparr>))) \<and>
     (distinct (map p_id (projects d)) \<and> projects d = pas @ p # pbs \<longrightarrow>
        (\<exists>ls'. deleteProject (p_id p) ls = Inr ([Toast ''Project deleted''], ls') \<and>
               load_doc ls' = Inr (d\<lparr>projects := pas @ pbs\<rparr>)))"
proof (intro conjI impI)
  assume a: "distinct (map t_id (thoughts d)) \<and> thoughts d = tas @ t # tbs"
  then have eq: "thoughts d = tas @ t # tbs" by (rule conjunct2)
  from a have dd: "distinct (map t_id (tas @ t # tbs))"
    unfolding eq [symmetric] by (rule conjunct1)
  have "filter (\<lambda>x. t_id x \<noteq> t_id t) (thoughts d) = tas @ tbs"
    unfolding eq by (rule filter_split[OF dd])
  then show "\<exists>ls'. deleteThought (t_id t) ls = Inr ([Toast ''Thought deleted''], ls') \<and>
               load_doc ls' = Inr (d\<lparr>thoughts := tas @ tbs\<rparr>)"
    by (simp add: deleteThought_effect[OF assms] load_doc_save_doc)
next
  assume a: "distinct (map w_id (work d)) \<and> work d = was @ w # wbs"
  then have eq: "work d = was @ w # wbs" by (rule conjunct2)
  from a have dd: "distinct (map w_id (was @ w # wbs))"
    unfolding eq [symmetric] by (rule conjunct1)
  have "filter (\<lambda>x. w_id x \<noteq> w_id w) (work d) = was @ wbs"
    unfolding eq by (rule filter_split[OF dd])
  then show "\<exists>ls'. deleteWork (w_id w) ls = Inr ([Toast ''Work deleted''], ls') \<and>
               load_doc ls' = Inr (d\<lparr>work := was @ wbs\<rparr>)"
    by (simp add: deleteWork_effect[OF assms] load_doc_save_doc)
next
  assume a: "distinct (map p_id (projects d)) \<and> projects d = pas @ p # pbs"
  then have eq: "projects d = pas @ p # pbs" by (rule conjunct2)
  from a have dd: "distinct (map p_id (pas @ p # pbs))"
    unfolding eq [symmetric] by (rule conjunct1)
  have "filter (\<lambda>x. p_id x \<noteq> p_id p) (projects d) = pas @ pbs"
    unfolding eq by (rule filter_split[OF dd])
  then show "\<exists>ls'. deleteProject (p_id p) ls = Inr ([Toast ''Project deleted''], ls') \<and>
               load_doc ls' = Inr (d\<lparr>projects := pas @ pbs\<rparr>)"
    by (simp add: deleteProject_effect[OF assms] load_doc_save_doc)
qed

theorem delete_removes_exactly_witness:
  "load_doc demo_store = Inr demo_doc \<and>
   distinct (map t_id (thoughts demo_doc)) \<and>
   thoughts demo_doc = [demo_thought_A] @ demo_thought_B # [] \<and>
   (\<exists>ls'. deleteThought (t_id demo_thought_B) demo_store = Inr ([Toast ''Thought deleted''], ls') \<and>
          load_doc ls' = Inr (demo_doc\<lparr>thoughts := [demo_thought_A] @ []\<rparr>)) \<and>
   distinct (map w_id (work demo_doc)) \<and>
   work demo_doc = [] @ demo_work # [] \<and>
   (\<exists>ls'. deleteWork (w_id demo_work) demo_store = Inr ([Toast ''Work deleted''], ls') \<and>
          load_doc ls' = Inr (demo_doc\<lparr>work := [] @ []\<rparr>)) \<and>
   distinct (map p_id (projects demo_doc)) \<and>
   projects demo_doc = [] @ demo_project # [] \<and>
   (\<exists>ls'. deleteProject (p_id demo_project) demo_store = Inr ([Toast ''Project deleted''], ls') \<and>
          load_doc ls' = Inr (demo_doc\<lparr>projects := [] @ []\<rparr>))"
  using delete_removes_exactly [OF load_doc_demo,
      where tas = "[demo_thought_A]" and t = demo_thought_B and tbs = "[]"
        and was = "[]" and w = demo_work and wbs = "[]"
        and pas = "[]" and p = demo_project and pbs = "[]"]
    load_doc_demo demo_facts(1-6)
  by blast

text \<open>
  Claim C5. For every email that is not empty once trimmed and every non-empty password,
  credential setup followed by login with the same form succeeds. After the setup, a login
  with non-empty fields succeeds exactly when its trimmed email equals the stored one and the
  digest of its password equals the stored digest, and is rejected with
  \<open>Invalid credentials\<close> otherwise; a login with an empty field is rejected as well. The
  digest is any function \<open>sha256\<close> from the password to bytes; the hexadecimal text kept in
  the store determines those bytes.
\<close>

theorem setup_then_login:
  assumes "load_doc ls = Inr d"
    and "trim (adminEmail form) \<noteq> []" and "adminPassword form \<noteq> []"
  shows
    "\<exists>ls'. setupAdmin sha256 form ls = Inr ([Toast ''Admin created (local)''], ls') \<and>
       loginAdmin sha256 form ls' = Inr ([ShowAdminPanel, Toast ''Logged in''], ls') \<and>
       (\<forall>attempt. trim (adminEmail attempt) \<noteq> [] \<and> adminPassword attempt \<noteq> [] \<longrightarrow>
          loginAdmin sha256 attempt ls' =
            (if trim (adminEmail attempt) = trim (adminEmail form) \<and>
                sha256 (adminPassword attempt) = sha256 (adminPassword form)
             then Inr ([ShowAdminPanel, Toast ''Logged in''], ls')
             else Inr ([Alert ''Invalid credentials''], ls'))) \<and>
       (\<forall>attempt. trim (adminEmail attempt) = [] \<or> adminPassword attempt = [] \<longrightarrow>
          loginAdmin sha256 attempt ls' = Inr ([Alert ''Email + password required''], ls'))"
proof -
  let ?c = "\<lparr>cr_email = trim (adminEmail form), cr_passHash = hashText sha256 (adminPassword form)\<rparr>"
  let ?ls = "save_doc (d\<lparr>admin := Some ?c\<rparr>) ls"
  have made: "setupAdmin sha256 form ls = Inr ([Toast ''Admin created (local)''], ?ls)"
    using assms by (simp add: setupAdmin_def Let_def)
  have stored: "load_doc ?ls = Inr (d\<lparr>admin := Some ?c\<rparr>)"
    by (rule load_doc_save_doc)
  have same: "loginAdmin sha256 form ?ls = Inr ([ShowAdminPanel, Toast ''Logged in''], ?ls)"
    using assms(2,3) by (simp add: loginAdmin_def Let_def stored)
  have other: "loginAdmin sha256 attempt ?ls =
            (if trim (adminEmail attempt) = trim (adminEmail form) \<and>
                sha256 (adminPassword attempt) = sha256 (adminPassword form)
             then Inr ([ShowAdminPanel, Toast ''Logged in''], ?ls)
             else Inr ([Alert ''Invalid credentials''], ?ls))"
    if "trim (adminEmail attempt) \<noteq> [] \<and> adminPassword attempt \<noteq> []" for attempt
    using that by (auto simp: loginAdmin_def Let_def stored hashText_eq_iff)
  have blank: "loginAdmin sha256 attempt ?ls = Inr ([Alert ''Email + password required''], ?ls)"
    if "trim (adminEmail attempt) = [] \<or> adminPassword attempt = []" for attempt
    using that by (auto simp: loginAdmin_def Let_def)
  show ?thesis
    using made same other blank by blast
qed

theorem setup_then_login_witness:
  "load_doc Map.empty =
     Inr \<lparr>thoughts = [], work = [], projects = [], messages = [], admin = None\<rparr> \<and>
   trim (adminEmail demo_admin_form) \<noteq> [] \<and> adminPassword demo_admin_form \<noteq> [] \<and>
   (\<exists>ls'. setupAdmin demo_digest demo_admin_form Map.empty =
            Inr ([Toast ''Admin created (local)''], ls') \<and>
          loginAdmin demo_digest demo_admin_form ls' = Inr ([ShowAdminPanel, Toast ''Logged in''], ls') \<and>
          loginAdmin demo_digest demo_wrong_password ls' = Inr ([Alert ''Invalid credentials''], ls') \<and>
          loginAdmin demo_digest demo_blank_password ls' =
            Inr ([Alert ''Email + password required''], ls'))"
proof -
  have h: "trim (adminEmail demo_admin_form) \<noteq> []" "adminPassword demo_admin_form \<noteq> []"
    by (simp_all add: demo_admin_facts)
  from setup_then_login [OF load_doc_empty h, where ?sha256.0 = demo_digest]
  obtain ls' where
    a: "setupAdmin demo_digest demo_admin_form Map.empty = Inr ([Toast ''Admin created (local)''], ls')"
    and b: "loginAdmin demo_digest demo_admin_form ls' = Inr ([ShowAdminPanel, Toast ''Logged in''], ls')"
    and c: "\<And>attempt. trim (adminEmail attempt) \<noteq> [] \<and> adminPassword attempt \<noteq> [] \<Longrightarrow>
          loginAdmin demo_digest attempt ls' =
            (if trim (adminEmail attempt) = trim (adminEmail demo_admin_form) \<and>
                demo_digest (adminPassword attempt) = demo_digest (adminPassword demo_admin_form)
             then Inr ([ShowAdminPanel, Toast ''Logged in''], ls')
             else Inr ([Alert ''Invalid credentials''], ls'))"
    and d: "\<And>attempt. trim (adminEmail attempt) = [] \<or> adminPassword attempt = [] \<Longrightarrow>
          loginAdmin demo_digest attempt ls' = Inr ([Alert ''Email + password required''], ls')"
    by blast
  have wrong: "loginAdmin demo_digest demo_wrong_password ls' = Inr ([Alert ''Invalid credentials''], ls')"
    using c[of demo_wrong_password] by (simp add: demo_admin_facts)
  have blank: "loginAdmin demo_digest demo_blank_password ls' =
      Inr ([Alert ''Email + password required''], ls')"
    using d[of demo_blank_password] by (simp add: demo_admin_facts)
  show ?thesis
    using load_doc_empty h a b wrong blank by blast
qed

text \<open>
  Claim C6. An edit or a delete given an id that is not in the target collection should show
  a notification only and raise nothing, for thoughts, work items and projects alike. The
  deletes do so, and so does \<open>saveThought\<close>, which tests what \<open>find\<close> returned and shows
  \<open>Not found\<close>. \<open>saveWork\<close> and \<open>saveProject\<close> assign to the result of \<open>find\<close> without
  the test and raise a \<open>TypeError\<close>. The three edits are evaluated on an empty store.
\<close>

theorem edit_missing_id_raises:
  "saveWork \<lparr>workTitle = (js ''W''), workTags = (js ''a''), workContent = (js ''c''), workImage = NoFile\<rparr>
     (Some (js ''9zq1m0a'')) (js ''0.4fzyo82mvyr'') (js ''2024-02-01T00:00:00.000Z'') Map.empty = Inl TypeError \<and>
   saveProject \<lparr>projectTitle = (js ''P''), projectLink = (js ''l''), projectDesc = (js ''d''), projectImage = NoFile\<rparr>
     (Some (js ''p7d2c5e'')) (js ''0.4fzyo82mvyr'') (js ''2024-02-01T00:00:00.000Z'') Map.empty = Inl TypeError \<and>
   saveThought \<lparr>thoughtTitle = (js ''A''), thoughtCategory = (js ''Tech''), thoughtContent = (js ''hi''),
                thoughtImage = NoFile\<rparr>
     (Some (js ''4fzyo82'')) (js ''0.4fzyo82mvyr'') (js ''2024-02-01T00:00:00.000Z'') Map.empty =
     Inr ([Toast ''Not found''], Map.empty) \<and>
   deleteWork (js ''9zq1m0a'') Map.empty =
     Inr ([Toast ''Work deleted''],
          save_doc \<lparr>thoughts = [], work = [], projects = [], messages = [], admin = None\<rparr>
            Map.empty) \<and>
   deleteProject (js ''p7d2c5e'') Map.empty =
     Inr ([Toast ''Project deleted''],
          save_doc \<lparr>thoughts = [], work = [], projects = [], messages = [], admin = None\<rparr>
            Map.empty) \<and>
   deleteThought (js ''4fzyo82'') Map.empty =
     Inr ([Toast ''Thought deleted''],
          save_doc \<lparr>thoughts = [], work = [], projects = [], messages = [], admin = None\<rparr>
            Map.empty)"
proof -
  have t: "trim (js ''W'') = (js ''W'')" "trim (js ''P'') = (js ''P'')" "trim (js ''A'') = (js ''A'')"
    by (simp_all add: trim_def is_space_def js_def)
  have f: "fileToBase64 NoFile = Inr None" by (simp add: fileToBase64_def)
  have w: "saveWork \<lparr>workTitle = (js ''W''), workTags = (js ''a''), workContent = (js ''c''), workImage = NoFile\<rparr>
     (Some (js ''9zq1m0a'')) (js ''0.4fzyo82mvyr'') (js ''2024-02-01T00:00:00.000Z'') Map.empty = Inl TypeError"
    by (rule saveWork_missing[OF load_doc_empty, where img = None]) (simp_all add: t f)
  have p: "saveProject \<lparr>projectTitle = (js ''P''), projectLink = (js ''l''), projectDesc = (js ''d''), projectImage = NoFile\<rparr>
     (Some (js ''p7d2c5e'')) (js ''0.4fzyo82mvyr'') (js ''2024-02-01T00:00:00.000Z'') Map.empty = Inl TypeError"
    by (rule saveProject_missing[OF load_doc_empty, where img = None]) (simp_all add: t f)
  have th: "saveThought \<lparr>thoughtTitle = (js ''A''), thoughtCategory = (js ''Tech''), thoughtContent = (js ''hi''),
                thoughtImage = NoFile\<rparr>
     (Some (js ''4fzyo82'')) (js ''0.4fzyo82mvyr'') (js ''2024-02-01T00:00:00.000Z'') Map.empty =
     Inr ([Toast ''Not found''], Map.empty)"
    by (rule saveThought_missing[OF load_doc_empty, where img = None]) (simp_all add: t f)
  have dels:
    "deleteWork (js ''9zq1m0a'') Map.empty =
       Inr ([Toast ''Work deleted''],
            save_doc \<lparr>thoughts = [], work = [], projects = [], messages = [], admin = None\<rparr>
              Map.empty)"
    "deleteProject (js ''p7d2c5e'') Map.empty =
       Inr ([Toast ''Project deleted''],
            save_doc \<lparr>thoughts = [], work = [], projects = [], messages = [], admin = None\<rparr>
              Map.empty)"
    "deleteThought (js ''4fzyo82'') Map.empty =
       Inr ([Toast ''Thought deleted''],
            save_doc \<lparr>thoughts = [], work = [], projects = [], messages = [], admin = None\<rparr>
              Map.empty)"
    by (simp_all add: deleteWork_effect[OF load_doc_empty] deleteProject_effect[OF load_doc_empty]
        deleteThought_effect[OF load_doc_empty])
  show ?thesis using w p th dels by simp
qed

text \<open>
  Claim C7. A save with a missing required field (the title of a thought, work item or
  project; the name, email or message of the contact form, each after trimming) shows a
  blocking alert and returns the storage unchanged, whatever the storage holds.
\<close>

theorem missing_field_no_change:
  "(trim (thoughtTitle tform) = [] \<longrightarrow>
      saveThought tform e r now ls = Inr ([Alert ''Title required''], ls)) \<and>
   (trim (workTitle wform) = [] \<longrightarrow>
      saveWork wform e r now ls = Inr ([Alert ''Title required''], ls)) \<and>
   (trim (projectTitle pform) = [] \<longrightarrow>
      saveProject pform e r now ls = Inr ([Alert ''Title required''], ls)) \<and>
   (trim (cname cform) = [] \<or> trim (cemail cform) = [] \<or> trim (cmessage cform) = [] \<longrightarrow>
      contactSubmit cform fetch r now ls = Inr ([Alert ''Fill required fields''], ls))"
  by (auto simp: saveThought_def saveWork_def saveProject_def contactSubmit_def Let_def)

theorem missing_field_no_change_witness:
  "trim (thoughtTitle \<lparr>thoughtTitle = [], thoughtCategory = (js ''Tech''), thoughtContent = (js ''hi''), thoughtImage = NoFile\<rparr>) = [] \<and>
   saveThought \<lparr>thoughtTitle = [], thoughtCategory = (js ''Tech''), thoughtContent = (js ''hi''), thoughtImage = NoFile\<rparr>
      None (js ''0.4fzyo82mvyr'') (js ''2024-01-01T00:00:00.000Z'') Map.empty = Inr ([Alert ''Title required''], Map.empty) \<and>
   trim (workTitle \<lparr>workTitle = (js '' ''), workTags = (js ''a''), workContent = (js ''hi''), workImage = NoFile\<rparr>) = [] \<and>
   saveWork \<lparr>workTitle = (js '' ''), workTags = (js ''a''), workContent = (js ''hi''), workImage = NoFile\<rparr>
      None (js ''0.4fzyo82mvyr'') (js ''2024-01-01T00:00:00.000Z'') Map.empty = Inr ([Alert ''Title required''], Map.empty) \<and>
   trim (projectTitle \<lparr>projectTitle = [], projectLink = (js ''x''), projectDesc = (js ''y''), projectImage = NoFile\<rparr>) = [] \<and>
   saveProject \<lparr>projectTitle = [], projectLink = (js ''x''), projectDesc = (js ''y''), projectImage = NoFile\<rparr>
      None (js ''0.4fzyo82mvyr'') (js ''2024-01-01T00:00:00.000Z'') Map.empty = Inr ([Alert ''Title required''], Map.empty) \<and>
   trim (cmessage \<lparr>cname = (js ''Ann''), cemail = (js ''a@b.c''), csubject = (js ''s''), cmessage = [], formspreeEndpoint = []\<rparr>) = [] \<and>
   contactSubmit \<lparr>cname = (js ''Ann''), cemail = (js ''a@b.c''), csubject = (js ''s''), cmessage = [], formspreeEndpoint = []\<rparr>
      Rejected (js ''0.4fzyo82mvyr'') (js ''2024-01-01T00:00:00.000Z'') Map.empty = Inr ([Alert ''Fill required fields''], Map.empty)"
proof -
  have t: "trim [] = []" "trim (js '' '') = []"
    by (simp_all add: trim_def is_space_def js_def)
  show ?thesis
    using missing_field_no_change
      [where tform = "\<lparr>thoughtTitle = [], thoughtCategory = (js ''Tech''), thoughtContent = (js ''hi''), thoughtImage = NoFile\<rparr>"
         and wform = "\<lparr>workTitle = (js '' ''), workTags = (js ''a''), workContent = (js ''hi''), workImage = NoFile\<rparr>"
         and pform = "\<lparr>projectTitle = [], projectLink = (js ''x''), projectDesc = (js ''y''), projectImage = NoFile\<rparr>"
         and cform = "\<lparr>cname = (js ''Ann''), cemail = (js ''a@b.c''), csubject = (js ''s''), cmessage = [], formspreeEndpoint = []\<rparr>"
         and e = None and r = "(js ''0.4fzyo82mvyr'')" and now = "(js ''2024-01-01T00:00:00.000Z'')"
         and ls = Map.empty and fetch = Rejected]
    by (simp add: t)
qed

text \<open>
  Claim C8. For a contact-form submission whose required fields are filled in, let \<open>m\<close> be
  the message made of the id \<open>slice(2,9)\<close> of the random text, the trimmed name, email,
  subject and message of the form and the current time stamp as created, and let the request
  be the POST to the trimmed endpoint of the JSON text of the object with the members name,
  email, subject, message and created, in this order. With a relay endpoint, a response
  outside 200 to 299 or a rejected request sends the request and appends \<open>m\<close> to the
  messages of the local store, and a response within 200 to 299 sends the request and leaves
  the store as it was; with no endpoint \<open>m\<close> is appended whatever the request would have
  returned, and nothing is sent. The store so written loads as the document with \<open>m\<close>
  appended.
\<close>

theorem contact_relay_fallback:
  assumes "load_doc ls = Inr d"
    and "trim (cname form) \<noteq> []" and "trim (cemail form) \<noteq> []" and "trim (cmessage form) \<noteq> []"
  shows
    "(let m = \<lparr>m_id = take 7 (drop 2 r), m_name = trim (cname form),
                m_email = trim (cemail form), m_subject = trim (csubject form),
                m_message = trim (cmessage form), m_created = now\<rparr>;
          request = Post (trim (formspreeEndpoint form))
                      (JSON_stringify (JObj [(js ''name'', JStr (trim (cname form))),
                         (js ''email'', JStr (trim (cemail form))),
                         (js ''subject'', JStr (trim (csubject form))),
                         (js ''message'', JStr (trim (cmessage form))),
                         (js ''created'', JStr now)]));
          saved = save_doc (d\<lparr>messages := messages d @ [m]\<rparr>) ls
      in
     (trim (formspreeEndpoint form) \<noteq> [] \<and> res_ok status \<longrightarrow>
        contactSubmit form (Response status) r now ls =
          Inr ([request, Toast ''Message sent via Formspree''], ls)) \<and>
     (trim (formspreeEndpoint form) \<noteq> [] \<and> \<not> res_ok status \<longrightarrow>
        contactSubmit form (Response status) r now ls =
          Inr ([request, Toast ''Formspree returned error; saved locally''], saved)) \<and>
     (trim (formspreeEndpoint form) \<noteq> [] \<longrightarrow>
        contactSubmit form Rejected r now ls =
          Inr ([request, ConsoleError, Toast ''Network error; saved locally''], saved)) \<and>
     (trim (formspreeEndpoint form) = [] \<longrightarrow>
        contactSubmit form fetch r now ls = Inr ([Toast ''Message saved locally''], saved)) \<and>
     load_doc saved = Inr (d\<lparr>messages := messages d @ [m]\<rparr>) \<and>
     (res_ok status \<longleftrightarrow> 200 \<le> status \<and> status \<le> 299))"
proof -
  have kept: "saveLocalMessage (payload_of form now) r ls =
      Inr (save_doc (d\<lparr>messages := messages d @
             [\<lparr>m_id = take 7 (drop 2 r), m_name = trim (cname form),
               m_email = trim (cemail form), m_subject = trim (csubject form),
               m_message = trim (cmessage form), m_created = now\<rparr>]\<rparr>) ls)"
    by (simp add: saveLocalMessage_effect[OF assms(1)] with_id_def payload_of_def uid_def)
  have req: "relay_request form now =
      Post (trim (formspreeEndpoint form))
        (JSON_stringify (JObj [(js ''name'', JStr (trim (cname form))),
           (js ''email'', JStr (trim (cemail form))),
           (js ''subject'', JStr (trim (csubject form))),
           (js ''message'', JStr (trim (cmessage form))),
           (js ''created'', JStr now)]))"
    by (simp only: relay_request_def payload_to_jv_def payload_of_def payload.simps)
  have ok: "res_ok status \<longleftrightarrow> 200 \<le> status \<and> status \<le> 299"
    by (simp add: res_ok_def)
  show ?thesis
    unfolding Let_def
    using assms(2-4)
    by (intro conjI impI)
       (simp_all only: contactSubmit_def Let_def kept req load_doc_save_doc ok
          simp_thms if_True if_False fetch_result.case sum.case)
qed

theorem contact_relay_fallback_witness:
  "load_doc demo_store = Inr demo_doc \<and>
   trim (cname demo_contact_form) \<noteq> [] \<and> trim (cemail demo_contact_form) \<noteq> [] \<and>
   trim (cmessage demo_contact_form) \<noteq> [] \<and> trim (formspreeEndpoint demo_contact_form) \<noteq> [] \<and>
   res_ok 200 \<and>
   contactSubmit demo_contact_form (Response 200) (js ''0.zz11yy22xx'') demo_now demo_store =
     Inr ([Post (js ''https://formspree.io/f/abc'')
            (JSON_stringify (JObj [(js ''name'', JStr (js ''Ann'')),
               (js ''email'', JStr (js ''ann@example.org'')), (js ''subject'', JStr (js ''Hi'')),
               (js ''message'', JStr (js ''Hello'')),
               (js ''created'', JStr (js ''2024-02-01T00:00:00.000Z''))])),
           Toast ''Message sent via Formspree''],
          demo_store) \<and>
   \<not> res_ok 503 \<and>
   contactSubmit demo_contact_form (Response 503) (js ''0.zz11yy22xx'') demo_now demo_store =
     Inr ([Post (js ''https://formspree.io/f/abc'')
            (JSON_stringify (JObj [(js ''name'', JStr (js ''Ann'')),
               (js ''email'', JStr (js ''ann@example.org'')), (js ''subject'', JStr (js ''Hi'')),
               (js ''message'', JStr (js ''Hello'')),
               (js ''created'', JStr (js ''2024-02-01T00:00:00.000Z''))])),
           Toast ''Formspree returned error; saved locally''],
          save_doc (demo_doc\<lparr>messages := [\<lparr>m_id = js ''zz11yy2'', m_name = js ''Ann'', m_email = js ''ann@example.org'',
              m_subject = js ''Hi'', m_message = js ''Hello'',
              m_created = js ''2024-02-01T00:00:00.000Z''\<rparr>]\<rparr>) demo_store) \<and>
   contactSubmit demo_contact_form Rejected (js ''0.zz11yy22xx'') demo_now demo_store =
     Inr ([Post (js ''https://formspree.io/f/abc'')
            (JSON_stringify (JObj [(js ''name'', JStr (js ''Ann'')),
               (js ''email'', JStr (js ''ann@example.org'')), (js ''subject'', JStr (js ''Hi'')),
               (js ''message'', JStr (js ''Hello'')),
               (js ''created'', JStr (js ''2024-02-01T00:00:00.000Z''))])),
           ConsoleError, Toast ''Network error; saved locally''],
          save_doc (demo_doc\<lparr>messages := [\<lparr>m_id = js ''zz11yy2'', m_name = js ''Ann'', m_email = js ''ann@example.org'',
              m_subject = js ''Hi'', m_message = js ''Hello'',
              m_created = js ''2024-02-01T00:00:00.000Z''\<rparr>]\<rparr>) demo_store) \<and>
   trim (cname demo_local_form) \<noteq> [] \<and> trim (cemail demo_local_form) \<noteq> [] \<and>
   trim (cmessage demo_local_form) \<noteq> [] \<and> trim (formspreeEndpoint demo_local_form) = [] \<and>
   contactSubmit demo_local_form (Response 200) (js ''0.zz11yy22xx'') demo_now demo_store =
     Inr ([Toast ''Message saved locally''],
          save_doc (demo_doc\<lparr>messages := [\<lparr>m_id = js ''zz11yy2'', m_name = js ''Ann'', m_email = js ''ann@example.org'',
              m_subject = js ''Hi'', m_message = js ''Hello'',
              m_created = js ''2024-02-01T00:00:00.000Z''\<rparr>]\<rparr>) demo_store) \<and>
   load_doc (save_doc (demo_doc\<lparr>messages := [\<lparr>m_id = js ''zz11yy2'', m_name = js ''Ann'', m_email = js ''ann@example.org'',
              m_subject = js ''Hi'', m_message = js ''Hello'',
              m_created = js ''2024-02-01T00:00:00.000Z''\<rparr>]\<rparr>) demo_store) =
     Inr (demo_doc\<lparr>messages := [\<lparr>m_id = js ''zz11yy2'', m_name = js ''Ann'', m_email = js ''ann@example.org'',
              m_subject = js ''Hi'', m_message = js ''Hello'',
              m_created = js ''2024-02-01T00:00:00.000Z''\<rparr>]\<rparr>)"
proof -
  note sent = contact_relay_fallback [OF load_doc_demo demo_contact_facts(1-3),
      where status = 200 and r = "(js ''0.zz11yy22xx'')" and now = demo_now]
  note failed = contact_relay_fallback [OF load_doc_demo demo_contact_facts(1-3),
      where status = 503 and r = "(js ''0.zz11yy22xx'')" and now = demo_now]
  note offline = contact_relay_fallback [OF load_doc_demo demo_contact_facts(5-7),
      where status = 200 and r = "(js ''0.zz11yy22xx'')" and now = demo_now and fetch = "Response 200"]
  have v: "take 7 (drop 2 (js ''0.zz11yy22xx'')) = js ''zz11yy2''"
    "trim (cname demo_contact_form) = js ''Ann''"
    "trim (cemail demo_contact_form) = js ''ann@example.org''"
    "trim (csubject demo_contact_form) = js ''Hi''"
    "trim (cmessage demo_contact_form) = js ''Hello''"
    "trim (formspreeEndpoint demo_contact_form) = js ''https://formspree.io/f/abc''"
    "trim (cname demo_local_form) = js ''Ann''"
    "trim (cemail demo_local_form) = js ''ann@example.org''"
    "trim (csubject demo_local_form) = js ''Hi''"
    "trim (cmessage demo_local_form) = js ''Hello''"
    "demo_now = js ''2024-02-01T00:00:00.000Z''"
    "messages demo_doc = []"
    by (simp_all add: demo_contact_form_def demo_local_form_def demo_now_def demo_doc_def
        trim_def is_space_def js_def)
  show ?thesis
    using sent [unfolded Let_def v] failed [unfolded Let_def v] offline [unfolded Let_def v]
      load_doc_demo demo_contact_facts
    by (simp only: v append_Nil)
qed

text \<open>
  A work item saved with the tags field \<open>a,a\<close> stores the tag \<open>a\<close> twice: the tags are
  not made distinct.
\<close>

theorem tags_keep_duplicates:
  "saveWork \<lparr>workTitle = (js ''W''), workTags = (js ''a,a''), workContent = [], workImage = NoFile\<rparr>
     None (js ''0.4fzyo82mvyr'') (js ''2024-01-01T00:00:00.000Z'') Map.empty =
     Inr ([Toast ''Work saved''], save_doc tagged_twice Map.empty) \<and>
   load_doc (save_doc tagged_twice Map.empty) = Inr tagged_twice \<and>
   map w_tags (work tagged_twice) = [[(js ''a''), (js ''a'')]] \<and>
   \<not> distinct [(js ''a''), (js ''a'')]"
proof -
  have t: "trim (js ''W'') = (js ''W'')" "trim (js ''a'') = (js ''a'')" "trim [] = []"
    by (simp_all add: trim_def is_space_def js_def)
  have f: "fileToBase64 NoFile = Inr None" by (simp add: fileToBase64_def)
  have u: "uid (js ''0.4fzyo82mvyr'') = js ''4fzyo82''"
    by (simp add: uid_def js_def)
  have tags: "parse_tags (js ''a,a'') = [(js ''a''), (js ''a'')]"
    by (simp add: parse_tags_def trim_def is_space_def js_def)
  have one: "saveWork \<lparr>workTitle = (js ''W''), workTags = (js ''a,a''), workContent = [], workImage = NoFile\<rparr>
     None (js ''0.4fzyo82mvyr'') (js ''2024-01-01T00:00:00.000Z'') Map.empty =
     Inr ([Toast ''Work saved''], save_doc tagged_twice Map.empty)"
    by (subst saveWork_create[OF load_doc_empty _ _ truthy_None, where img = None])
       (simp_all add: t f tags u tagged_twice_def truthy_def)
  show ?thesis
    using one by (simp add: load_doc_save_doc) (simp add: tagged_twice_def)
qed

text \<open>
  Claim C9, as amended. The tags of a work item written by a save, new or edited, are the
  pieces of the comma-separated field, trimmed, with the empty ones dropped, in the order of
  the field and with repetitions kept. Each tag is non-empty and has no white space at either
  end.
\<close>

theorem saved_tags_nonempty_trimmed:
  assumes "load_doc ls = Inr d"
    and "trim (workTitle form) \<noteq> []" and "workImage form \<noteq> ReadFailed"
  shows
    "(\<not> truthy e \<longrightarrow>
        (\<exists>w ls'. saveWork form e r now ls = Inr ([Toast ''Work saved''], ls') \<and>
           load_doc ls' = Inr (d\<lparr>work := work d @ [w]\<rparr>) \<and>
           w_tags w = parse_tags (workTags form))) \<and>
     (w_id w0 \<noteq> [] \<and> work d = was @ w0 # wbs \<and> (\<forall>a \<in> set was. w_id a \<noteq> w_id w0) \<longrightarrow>
        (\<exists>w' ls'. saveWork form (Some (w_id w0)) r now ls = Inr ([Toast ''Work updated''], ls') \<and>
           load_doc ls' = Inr (d\<lparr>work := was @ w' # wbs\<rparr>) \<and>
           w_tags w' = parse_tags (workTags form))) \<and>
     parse_tags (workTags form) = filter (\<lambda>s. s \<noteq> []) (map trim (split_commas (workTags form))) \<and>
     (\<forall>t \<in> set (parse_tags (workTags form)).
        t \<noteq> [] \<and> trim t = t \<and> \<not> is_space (hd t) \<and> \<not> is_space (last t))"
proof (intro conjI impI ballI)
  assume "\<not> truthy e"
  then show "\<exists>w ls'. saveWork form e r now ls = Inr ([Toast ''Work saved''], ls') \<and>
           load_doc ls' = Inr (d\<lparr>work := work d @ [w]\<rparr>) \<and>
           w_tags w = parse_tags (workTags form)"
    using work_created[OF assms, of e r now] by blast
next
  assume "w_id w0 \<noteq> [] \<and> work d = was @ w0 # wbs \<and> (\<forall>a \<in> set was. w_id a \<noteq> w_id w0)"
  then show "\<exists>w' ls'. saveWork form (Some (w_id w0)) r now ls = Inr ([Toast ''Work updated''], ls') \<and>
           load_doc ls' = Inr (d\<lparr>work := was @ w' # wbs\<rparr>) \<and>
           w_tags w' = parse_tags (workTags form)"
    using work_edited[OF assms, of w0 was wbs r now] by blast
next
  show "parse_tags (workTags form) = filter (\<lambda>s. s \<noteq> []) (map trim (split_commas (workTags form)))"
    by (simp add: parse_tags_def)
next
  fix t assume "t \<in> set (parse_tags (workTags form))"
  from parse_tags_member[OF this]
  show "t \<noteq> []" "trim t = t" "\<not> is_space (hd t)" "\<not> is_space (last t)" by simp_all
qed

theorem saved_tags_nonempty_trimmed_witness:
  "load_doc demo_store = Inr demo_doc \<and>
   trim (workTitle demo_work_form) \<noteq> [] \<and> workImage demo_work_form \<noteq> ReadFailed \<and>
   \<not> truthy None \<and>
   (\<exists>w ls'. saveWork demo_work_form None (js ''0.zz11yy22xx'') demo_now demo_store =
               Inr ([Toast ''Work saved''], ls') \<and>
           load_doc ls' = Inr (demo_doc\<lparr>work := work demo_doc @ [w]\<rparr>) \<and>
           w_tags w = parse_tags (workTags demo_work_form)) \<and>
   w_id demo_work \<noteq> [] \<and> work demo_doc = [] @ demo_work # [] \<and>
   (\<exists>w' ls'. saveWork demo_work_form (Some (w_id demo_work)) (js ''0.zz11yy22xx'') demo_now demo_store =
               Inr ([Toast ''Work updated''], ls') \<and>
           load_doc ls' = Inr (demo_doc\<lparr>work := [] @ w' # []\<rparr>) \<and>
           w_tags w' = parse_tags (workTags demo_work_form)) \<and>
   parse_tags (workTags demo_work_form) = [(js ''a''), (js ''b''), (js ''a'')] \<and>
   trim (js ''b'') = (js ''b'') \<and> \<not> is_space (hd (js ''b'')) \<and> \<not> is_space (last (js ''b''))"
proof -
  note T = saved_tags_nonempty_trimmed [OF load_doc_demo demo_facts(14,15),
      where e = None and r = "(js ''0.zz11yy22xx'')" and now = demo_now
        and was = "[]" and ?w0.0 = demo_work and wbs = "[]"]
  have e: "\<forall>a \<in> set []. w_id a \<noteq> w_id demo_work" by simp
  have mem: "(js ''b'') \<in> set (parse_tags (workTags demo_work_form))"
    by (simp add: demo_tags)
  from T have "\<forall>t \<in> set (parse_tags (workTags demo_work_form)).
        t \<noteq> [] \<and> trim t = t \<and> \<not> is_space (hd t) \<and> \<not> is_space (last t)"
    by blast
  with mem have b: "trim (js ''b'') = (js ''b'')" "\<not> is_space (hd (js ''b''))" "\<not> is_space (last (js ''b''))"
    by blast+
  show ?thesis
    using T load_doc_demo demo_facts truthy_None e demo_tags b by blast
qed

text \<open>
  Claim C10. Editing an existing thought, work item or project with no image file chosen
  keeps the image field of the record as it was stored.
\<close>

theorem edit_without_file_keeps_image:
  assumes "load_doc ls = Inr d"
  shows
    "(trim (thoughtTitle tform) \<noteq> [] \<and> thoughtImage tform = NoFile \<and> t_id t0 \<noteq> [] \<and>
      thoughts d = tas @ t0 # tbs \<and> (\<forall>a \<in> set tas. t_id a \<noteq> t_id t0) \<longrightarrow>
        (\<exists>t' ls'. saveThought tform (Some (t_id t0)) r now ls = Inr ([Toast ''Thought updated''], ls') \<and>
           load_doc ls' = Inr (d\<lparr>thoughts := tas @ t' # tbs\<rparr>) \<and>
           t_image t' = t_image t0)) \<and>
     (trim (workTitle wform) \<noteq> [] \<and> workImage wform = NoFile \<and> w_id w0 \<noteq> [] \<and>
      work d = was @ w0 # wbs \<and> (\<forall>a \<in> set was. w_id a \<noteq> w_id w0) \<longrightarrow>
        (\<exists>w' ls'. saveWork wform (Some (w_id w0)) r now ls = Inr ([Toast ''Work updated''], ls') \<and>
           load_doc ls' = Inr (d\<lparr>work := was @ w' # wbs\<rparr>) \<and>
           w_image w' = w_image w0)) \<and>
     (trim (projectTitle pform) \<noteq> [] \<and> projectImage pform = NoFile \<and> p_id p0 \<noteq> [] \<and>
      projects d = pas @ p0 # pbs \<and> (\<forall>a \<in> set pas. p_id a \<noteq> p_id p0) \<longrightarrow>
        (\<exists>p' ls'. saveProject pform (Some (p_id p0)) r now ls = Inr ([Toast ''Project updated''], ls') \<and>
           load_doc ls' = Inr (d\<lparr>projects := pas @ p' # pbs\<rparr>) \<and>
           p_image p' = p_image p0))"
proof (intro conjI impI)
  assume a: "trim (thoughtTitle tform) \<noteq> [] \<and> thoughtImage tform = NoFile \<and> t_id t0 \<noteq> [] \<and>
      thoughts d = tas @ t0 # tbs \<and> (\<forall>a \<in> set tas. t_id a \<noteq> t_id t0)"
  then have "thoughtImage tform \<noteq> ReadFailed" by simp
  with a show "\<exists>t' ls'. saveThought tform (Some (t_id t0)) r now ls = Inr ([Toast ''Thought updated''], ls') \<and>
           load_doc ls' = Inr (d\<lparr>thoughts := tas @ t' # tbs\<rparr>) \<and>
           t_image t' = t_image t0"
    using thought_edited[OF assms, of tform t0 tas tbs r now] by blast
next
  assume a: "trim (workTitle wform) \<noteq> [] \<and> workImage wform = NoFile \<and> w_id w0 \<noteq> [] \<and>
      work d = was @ w0 # wbs \<and> (\<forall>a \<in> set was. w_id a \<noteq> w_id w0)"
  then have "workImage wform \<noteq> ReadFailed" by simp
  with a show "\<exists>w' ls'. saveWork wform (Some (w_id w0)) r now ls = Inr ([Toast ''Work updated''], ls') \<and>
           load_doc ls' = Inr (d\<lparr>work := was @ w' # wbs\<rparr>) \<and>
           w_image w' = w_image w0"
    using work_edited[OF assms, of wform w0 was wbs r now] by blast
next
  assume a: "trim (projectTitle pform) \<noteq> [] \<and> projectImage pform = NoFile \<and> p_id p0 \<noteq> [] \<and>
      projects d = pas @ p0 # pbs \<and> (\<forall>a \<in> set pas. p_id a \<noteq> p_id p0)"
  then have "projectImage pform \<noteq> ReadFailed" by simp
  with a show "\<exists>p' ls'. saveProject pform (Some (p_id p0)) r now ls = Inr ([Toast ''Project updated''], ls') \<and>
           load_doc ls' = Inr (d\<lparr>projects := pas @ p' # pbs\<rparr>) \<and>
           p_image p' = p_image p0"
    using project_edited[OF assms, of pform p0 pas pbs r now] by blast
qed

theorem edit_without_file_keeps_image_witness:
  "load_doc demo_store = Inr demo_doc \<and>
   trim (thoughtTitle demo_thought_form) \<noteq> [] \<and> thoughtImage demo_thought_form = NoFile \<and>
   t_id demo_thought_A \<noteq> [] \<and> thoughts demo_doc = [] @ demo_thought_A # [demo_thought_B] \<and>
   (\<exists>t' ls'. saveThought demo_thought_form (Some (t_id demo_thought_A)) (js ''0.zz11yy22xx'') demo_now
                demo_store = Inr ([Toast ''Thought updated''], ls') \<and>
           load_doc ls' = Inr (demo_doc\<lparr>thoughts := [] @ t' # [demo_thought_B]\<rparr>) \<and>
           t_image t' = t_image demo_thought_A) \<and>
   t_image demo_thought_A = Some (js ''data:image/png;base64,AAAA'') \<and>
   trim (workTitle demo_work_form) \<noteq> [] \<and> workImage demo_work_form = NoFile \<and>
   w_id demo_work \<noteq> [] \<and> work demo_doc = [] @ demo_work # [] \<and>
   (\<exists>w' ls'. saveWork demo_work_form (Some (w_id demo_work)) (js ''0.zz11yy22xx'') demo_now
                demo_store = Inr ([Toast ''Work updated''], ls') \<and>
           load_doc ls' = Inr (demo_doc\<lparr>work := [] @ w' # []\<rparr>) \<and>
           w_image w' = w_image demo_work) \<and>
   trim (projectTitle demo_project_form) \<noteq> [] \<and> projectImage demo_project_form = NoFile \<and>
   p_id demo_project \<noteq> [] \<and> projects demo_doc = [] @ demo_project # [] \<and>
   (\<exists>p' ls'. saveProject demo_project_form (Some (p_id demo_project)) (js ''0.zz11yy22xx'') demo_now
                demo_store = Inr ([Toast ''Project updated''], ls') \<and>
           load_doc ls' = Inr (demo_doc\<lparr>projects := [] @ p' # []\<rparr>) \<and>
           p_image p' = p_image demo_project)"
proof -
  note T = edit_without_file_keeps_image [OF load_doc_demo,
      where tform = demo_thought_form and wform = demo_work_form and pform = demo_project_form
        and r = "(js ''0.zz11yy22xx'')" and now = demo_now
        and tas = "[]" and ?t0.0 = demo_thought_A and tbs = "[demo_thought_B]"
        and was = "[]" and ?w0.0 = demo_work and wbs = "[]"
        and pas = "[]" and ?p0.0 = demo_project and pbs = "[]"]
  have e: "\<forall>a \<in> set []. t_id a \<noteq> t_id demo_thought_A"
    "\<forall>a \<in> set []. w_id a \<noteq> w_id demo_work" "\<forall>a \<in> set []. p_id a \<noteq> p_id demo_project"
    by simp_all
  have f: "t_id demo_thought_A \<noteq> []" "thoughts demo_doc = [] @ demo_thought_A # [demo_thought_B]"
    "t_image demo_thought_A = Some (js ''data:image/png;base64,AAAA'')"
    by (simp_all add: demo_doc_def demo_thought_A_def)
  show ?thesis
    using T load_doc_demo demo_facts e f by blast
qed

end
